theory Spec2Isabelle
  imports Complex_Main "HOL-Library.AList" "HOL-Library.Char_ord" "HOL-Library.List_Lexorder"
    "HOL-Library.Multiset"
begin

section \<open>Student Finance Tracker: validators, search, sorted view and statistics\<close>

text \<open>
  A shallow embedding of the modules \<^verbatim>\<open>validators.js\<close>, \<^verbatim>\<open>search.js\<close> and
  \<^verbatim>\<open>state.js\<close>. A JavaScript string is a sequence of 16-bit code units; the model
  is \<^typ>\<open>string\<close>, whose characters are the code units below 256. A JavaScript number
  that is not NaN is a value of an ordered numeric type (\<^typ>\<open>rat\<close> where decimal text
  is read; a type parameter \<open>'n\<close> where only order, zero and addition are used).
\<close>

subsection \<open>Character classes of the pattern engine\<close>

definition code :: "char \<Rightarrow> nat" where
  "code c = of_char c"

text \<open>\<^verbatim>\<open>\s\<close> and \<^verbatim>\<open>String.prototype.trim\<close>: white space and line terminators
  (TAB, LF, VT, FF, CR, SP, NBSP; the others lie above 255).\<close>

definition is_space :: "char \<Rightarrow> bool" where
  "is_space c = (code c \<in> {9, 10, 11, 12, 13, 32, 160})"

text \<open>\<^verbatim>\<open>.\<close> without the \<^verbatim>\<open>s\<close> flag: any code unit but a line terminator.\<close>

definition is_dot :: "char \<Rightarrow> bool" where
  "is_dot c = (code c \<noteq> 10 \<and> code c \<noteq> 13)"

definition is_digit :: "char \<Rightarrow> bool" where
  "is_digit c = (48 \<le> code c \<and> code c \<le> 57)"

definition in_range :: "char \<Rightarrow> char \<Rightarrow> char \<Rightarrow> bool" where
  "in_range lo hi c = (code lo \<le> code c \<and> code c \<le> code hi)"

text \<open>\<^verbatim>\<open>\w\<close>: \<^verbatim>\<open>[A-Za-z0-9_]\<close>.\<close>

definition is_word_char :: "char \<Rightarrow> bool" where
  "is_word_char c = (in_range CHR ''a'' CHR ''z'' c \<or> in_range CHR ''A'' CHR ''Z'' c
     \<or> is_digit c \<or> c = CHR ''_'')"

text \<open>Canonicalisation under the \<^verbatim>\<open>i\<close> flag: the upper-case form of a code unit,
  kept only when it is again a single code unit of the same range.\<close>

definition canonicalize :: "char \<Rightarrow> char" where
  "canonicalize c =
     (if in_range CHR ''a'' CHR ''z'' c then char_of (code c - 32)
      else if 224 \<le> code c \<and> code c \<le> 254 \<and> code c \<noteq> 247 then char_of (code c - 32)
      else c)"

definition trim :: "string \<Rightarrow> string" where
  "trim s = rev (dropWhile is_space (rev (dropWhile is_space s)))"

subsection \<open>Anchored patterns without captures\<close>

text \<open>
  The patterns of \<^verbatim>\<open>validators.js\<close> that are anchored at both ends and use no
  back-reference are embedded as syntax trees. \<open>rx_match r s\<close> lists, in the engine's
  order of preference, every remainder of \<open>s\<close> that the backtracking matcher can leave
  after \<open>r\<close> has consumed a prefix; \<^verbatim>\<open>/^r$/.test(s)\<close> holds when the empty remainder
  is among them. An iteration of \<^verbatim>\<open>*\<close> that consumes nothing is rejected, as the
  engine does, so \<open>length s\<close> rounds suffice.
\<close>

datatype rx =
    Class "char \<Rightarrow> bool"
  | Seq rx rx
  | Alt rx rx
  | Opt rx
  | Star rx

primrec star :: "nat \<Rightarrow> (string \<Rightarrow> string list) \<Rightarrow> string \<Rightarrow> string list" where
  "star 0 f s = [s]"
| "star (Suc n) f s =
     concat (map (star n f) (filter (\<lambda>r. length r < length s) (f s))) @ [s]"

primrec rx_match :: "rx \<Rightarrow> string \<Rightarrow> string list" where
  "rx_match (Class p) s = (case s of [] \<Rightarrow> [] | c # cs \<Rightarrow> if p c then [cs] else [])"
| "rx_match (Seq a b) s = concat (map (rx_match b) (rx_match a s))"
| "rx_match (Alt a b) s = rx_match a s @ rx_match b s"
| "rx_match (Opt a) s = rx_match a s @ [s]"
| "rx_match (Star a) s = star (length s) (rx_match a) s"

definition test_anchored :: "rx \<Rightarrow> string \<Rightarrow> bool" where
  "test_anchored r s = list_ex (\<lambda>rest. rest = []) (rx_match r s)"

definition lit :: "char \<Rightarrow> rx" where
  "lit c = Class (\<lambda>x. x = c)"

definition digit :: rx where
  "digit = Class is_digit"

text \<open>\<^verbatim>\<open>description: /^\S(?:.*\S)?$/\<close>\<close>

definition patterns_description :: rx where
  "patterns_description =
     Seq (Class (\<lambda>c. \<not> is_space c)) (Opt (Seq (Star (Class is_dot)) (Class (\<lambda>c. \<not> is_space c))))"

text \<open>\<^verbatim>\<open>amount: /^(0|[1-9]\d*)(\.\d{1,2})?$/\<close>\<close>

definition patterns_amount :: rx where
  "patterns_amount =
     Seq (Alt (lit CHR ''0'') (Seq (Class (in_range CHR ''1'' CHR ''9'')) (Star digit)))
         (Opt (Seq (lit CHR ''.'') (Seq digit (Opt digit))))"

text \<open>\<^verbatim>\<open>date: /^\d{4}-(0[1-9]|1[0-2])-(0[1-9]|[12]\d|3[01])$/\<close>\<close>

definition patterns_date :: rx where
  "patterns_date =
     Seq (Seq digit (Seq digit (Seq digit digit)))
    (Seq (lit CHR ''-'')
    (Seq (Alt (Seq (lit CHR ''0'') (Class (in_range CHR ''1'' CHR ''9'')))
              (Seq (lit CHR ''1'') (Class (in_range CHR ''0'' CHR ''2''))))
    (Seq (lit CHR ''-'')
         (Alt (Seq (lit CHR ''0'') (Class (in_range CHR ''1'' CHR ''9'')))
         (Alt (Seq (Class (in_range CHR ''1'' CHR ''2'')) digit)
              (Seq (lit CHR ''3'') (Class (in_range CHR ''0'' CHR ''1''))))))))"

subsection \<open>The duplicate-word pattern\<close>

text \<open>
  \<^verbatim>\<open>duplicateWords: /\b(\w+)\s+\1\b/i\<close> has a back-reference and no anchor. It matches
  when, at some index \<open>i\<close> that is a word boundary, \<open>k \<ge> 1\<close> word characters are
  followed by \<open>w \<ge> 1\<close> white-space characters, then by the same \<open>k\<close> characters up to
  case, and the index after them is a word boundary. Backtracking tries every \<open>k\<close> and
  \<open>w\<close>, so \<^verbatim>\<open>test\<close> is the existence of such \<open>i\<close>, \<open>k\<close>, \<open>w\<close>.
\<close>

definition slice :: "string \<Rightarrow> nat \<Rightarrow> nat \<Rightarrow> string" where
  "slice s i n = take n (drop i s)"

text \<open>\<^verbatim>\<open>\b\<close> at index \<open>i\<close>: exactly one of the code units before and after is a word
  character (outside the string counts as none).\<close>

definition word_at :: "string \<Rightarrow> nat \<Rightarrow> bool" where
  "word_at s i = (i < length s \<and> is_word_char (s ! i))"

definition word_boundary :: "string \<Rightarrow> nat \<Rightarrow> bool" where
  "word_boundary s i = ((0 < i \<and> word_at s (i - 1)) \<noteq> word_at s i)"

definition duplicateWords_at :: "string \<Rightarrow> nat \<Rightarrow> nat \<Rightarrow> nat \<Rightarrow> bool" where
  "duplicateWords_at s i k w =
     (word_boundary s i
      \<and> i + k + w + k \<le> length s
      \<and> list_all is_word_char (slice s i k)
      \<and> list_all is_space (slice s (i + k) w)
      \<and> map canonicalize (slice s (i + k + w) k) = map canonicalize (slice s i k)
      \<and> word_boundary s (i + k + w + k))"

definition duplicateWords_test :: "string \<Rightarrow> bool" where
  "duplicateWords_test s =
     list_ex (\<lambda>i. list_ex (\<lambda>k. list_ex (\<lambda>w. duplicateWords_at s i k w)
        [1..<Suc (length s)]) [1..<Suc (length s)]) [0..<length s]"

subsection \<open>Field validators\<close>

record validation =
  valid :: bool
  message :: string

definition invalid :: "string \<Rightarrow> validation" where
  "invalid msg = \<lparr>valid = False, message = msg\<rparr>"

definition ok :: validation where
  "ok = \<lparr>valid = True, message = []\<rparr>"

text \<open>\<^verbatim>\<open>!value || value.trim() === ''\<close> on a string.\<close>

definition is_blank :: "string \<Rightarrow> bool" where
  "is_blank v = (v = [] \<or> trim v = [])"

definition validateDescription :: "string \<Rightarrow> validation" where
  "validateDescription v =
     (if is_blank v then invalid ''Description is required''
      else if \<not> test_anchored patterns_description v
        then invalid ''Description cannot have leading/trailing spaces or double spaces''
      else if duplicateWords_test v then invalid ''Description contains duplicate words''
      else if length v < 3 then invalid ''Description must be at least 3 characters long''
      else if length v > 100 then invalid ''Description must be less than 100 characters''
      else ok)"

text \<open>
  \<^verbatim>\<open>parseFloat\<close> on decimal text \<^verbatim>\<open>digits[.digits]\<close>, the only text that passes
  \<^verbatim>\<open>patterns.amount\<close>: the longest such prefix is read, NaN (\<open>None\<close>) when the text
  does not start with a digit. The value is the exact decimal; the engine rounds it to
  the nearest double, and rounding is monotone, so the comparisons of \<open>validateAmount\<close>
  against \<open>0\<close> and against the double nearest to \<open>999999.99\<close> come out the same on
  text of at most two fractional digits.
\<close>

definition digits_value :: "string \<Rightarrow> int" where
  "digits_value ds = foldl (\<lambda>a c. 10 * a + (of_char c - 48)) 0 ds"

definition parseFloat :: "string \<Rightarrow> rat option" where
  "parseFloat s =
     (let ip = takeWhile is_digit s; rest = dropWhile is_digit s in
      if ip = [] then None
      else case rest of
          c # fs \<Rightarrow>
            if c = CHR ''.'' \<and> takeWhile is_digit fs \<noteq> []
            then Some (of_int (digits_value ip)
                   + of_int (digits_value (takeWhile is_digit fs)) / 10 ^ length (takeWhile is_digit fs))
            else Some (of_int (digits_value ip))
        | [] \<Rightarrow> Some (of_int (digits_value ip)))"

text \<open>\<^verbatim>\<open>numValue <= 0\<close> and \<^verbatim>\<open>numValue > 999999.99\<close> are both false on NaN.\<close>

definition validateAmount :: "string \<Rightarrow> validation" where
  "validateAmount v =
     (if is_blank v then invalid ''Amount is required''
      else if \<not> test_anchored patterns_amount v
        then invalid ''Amount must be a valid number with up to 2 decimal places''
      else case parseFloat v of
          None \<Rightarrow> ok
        | Some numValue \<Rightarrow>
            if numValue \<le> 0 then invalid ''Amount must be greater than 0''
            else if numValue > 99999999 / 100 then invalid ''Amount must be less than 1,000,000''
            else ok)"

subsection \<open>The host: clock, time zone and date parser\<close>

text \<open>
  \<^verbatim>\<open>new Date()\<close>, the local time zone and \<^verbatim>\<open>new Date(text)\<close> belong to the
  platform. \<open>now\<close> is the current time value (milliseconds since the epoch, UTC);
  \<open>LocalTZA t isUTC\<close> is the offset of local time in milliseconds, as in ECMAScript;
  \<open>lenient_dates\<close> tells whether the host's parser accepts any day number from 01 to
  31 and lets it run over into the next month, or rejects a day the month does not have.
\<close>

record host =
  now :: int
  LocalTZA :: "int \<Rightarrow> bool \<Rightarrow> int"
  lenient_dates :: bool

definition msPerDay :: int where
  "msPerDay = 86400000"

definition Day :: "int \<Rightarrow> int" where
  "Day t = t div msPerDay"

definition TimeWithinDay :: "int \<Rightarrow> int" where
  "TimeWithinDay t = t mod msPerDay"

definition DayFromYear :: "int \<Rightarrow> int" where
  "DayFromYear y =
     365 * (y - 1970) + (y - 1969) div 4 - (y - 1901) div 100 + (y - 1601) div 400"

definition InLeapYear :: "int \<Rightarrow> bool" where
  "InLeapYear y = (if y mod 4 \<noteq> 0 then False else if y mod 100 \<noteq> 0 then True else y mod 400 = 0)"

definition DaysInMonth :: "int \<Rightarrow> int \<Rightarrow> int" where
  "DaysInMonth y m =
     (if m = 2 then (if InLeapYear y then 29 else 28)
      else if m \<in> {4, 6, 9, 11} then 30 else 31)"

text \<open>Days of the year before the first of month \<open>m\<close> (1 to 12).\<close>

definition DaysBeforeMonth :: "int \<Rightarrow> int \<Rightarrow> int" where
  "DaysBeforeMonth y m =
     sum_list (map (DaysInMonth y) [1..m - 1])"

definition MakeDay :: "int \<Rightarrow> int \<Rightarrow> int \<Rightarrow> int" where
  "MakeDay y m d = DayFromYear y + DaysBeforeMonth y m + d - 1"

definition LocalTime :: "host \<Rightarrow> int \<Rightarrow> int" where
  "LocalTime h t = t + LocalTZA h t True"

definition UTC :: "host \<Rightarrow> int \<Rightarrow> int" where
  "UTC h t = t - LocalTZA h t False"

text \<open>
  \<^verbatim>\<open>new Date(text)\<close> on the date-only ISO form \<^verbatim>\<open>YYYY-MM-DD\<close>, which is read as UTC
  midnight of that day; \<open>None\<close> is the time value NaN. Text of any other form is left
  to the host by ECMAScript and is given NaN here; every date that reaches the parser
  from \<open>validateDate\<close> has the ISO form.
\<close>

definition iso_date_shape :: "string \<Rightarrow> bool" where
  "iso_date_shape s =
     (length s = 10 \<and> list_all is_digit (slice s 0 4) \<and> s ! 4 = CHR ''-''
      \<and> list_all is_digit (slice s 5 2) \<and> s ! 7 = CHR ''-'' \<and> list_all is_digit (slice s 8 2))"

definition Date_parse :: "host \<Rightarrow> string \<Rightarrow> int option" where
  "Date_parse h s =
     (if iso_date_shape s then
        (let y = digits_value (slice s 0 4); m = digits_value (slice s 5 2);
             d = digits_value (slice s 8 2)
         in if 1 \<le> m \<and> m \<le> 12 \<and> 1 \<le> d
               \<and> d \<le> (if lenient_dates h then 31 else DaysInMonth y m)
            then Some (MakeDay y m d * msPerDay) else None)
      else None)"

text \<open>\<^verbatim>\<open>today.setHours(0, 0, 0, 0)\<close>: midnight of the local day of \<open>t\<close>, as a time value.\<close>

definition setHours0 :: "host \<Rightarrow> int \<Rightarrow> int" where
  "setHours0 h t = UTC h (Day (LocalTime h t) * msPerDay)"

text \<open>
  \<^verbatim>\<open>d.setDate(d.getDate() - k)\<close>: the local date moves back \<open>k\<close> days and the local
  time of day stays (\<open>MakeDay\<close> of the same year and month with the day number lowered
  by \<open>k\<close> is the day number of the local time lowered by \<open>k\<close>).
\<close>

definition setDate_back :: "host \<Rightarrow> int \<Rightarrow> int \<Rightarrow> int" where
  "setDate_back h t k =
     (let local = LocalTime h t
      in UTC h ((Day local - k) * msPerDay + TimeWithinDay local))"

definition validateDate :: "host \<Rightarrow> string \<Rightarrow> validation" where
  "validateDate h v =
     (if is_blank v then invalid ''Date is required''
      else if \<not> test_anchored patterns_date v then invalid ''Date must be in YYYY-MM-DD format''
      else case Date_parse h v of
          None \<Rightarrow> invalid ''Invalid date''
        | Some dateObj \<Rightarrow>
            (let today = setHours0 h (now h)
             in if dateObj > today then invalid ''Date cannot be in the future'' else ok))"

subsection \<open>Compiled patterns and their execution\<close>

text \<open>
  A compiled \<^verbatim>\<open>RegExp\<close> is the platform's matcher together with the \<^verbatim>\<open>g\<close> flag and
  the mutable \<^verbatim>\<open>lastIndex\<close>. \<open>matcher r s i\<close> is the attempt to match at index \<open>i\<close>
  of \<open>s\<close>: the length of the match, or \<open>None\<close>. The flag \<^verbatim>\<open>y\<close> is never passed by the
  application and is left out. The functions below follow \<^verbatim>\<open>RegExpBuiltinExec\<close>,
  \<^verbatim>\<open>RegExp.prototype.test\<close> and \<^verbatim>\<open>RegExp.prototype[Symbol.replace]\<close> with a function
  as replacement; each returns the pattern with its new \<^verbatim>\<open>lastIndex\<close>.
\<close>

record regexp =
  matcher :: "string \<Rightarrow> nat \<Rightarrow> nat option"
  global :: bool
  lastIndex :: nat

text \<open>The search loop of \<^verbatim>\<open>RegExpBuiltinExec\<close>: try index \<open>i\<close>, then \<open>i + 1\<close>, up to
  the length of the string.\<close>

function scan :: "(string \<Rightarrow> nat \<Rightarrow> nat option) \<Rightarrow> string \<Rightarrow> nat \<Rightarrow> (nat \<times> nat) option" where
  "scan m s i =
     (if length s < i then None
      else case m s i of Some n \<Rightarrow> Some (i, n) | None \<Rightarrow> scan m s (Suc i))"
  by pat_completeness auto
termination
  by (relation "measure (\<lambda>(m, s, i). Suc (length s) - i)") auto

definition exec :: "regexp \<Rightarrow> string \<Rightarrow> (nat \<times> nat) option \<times> regexp" where
  "exec r s =
     (case scan (matcher r) s (if global r then lastIndex r else 0) of
        None \<Rightarrow> (None, if global r then r\<lparr>lastIndex := 0\<rparr> else r)
      | Some (i, n) \<Rightarrow> (Some (i, n), if global r then r\<lparr>lastIndex := i + n\<rparr> else r))"

definition test :: "regexp \<Rightarrow> string \<Rightarrow> bool \<times> regexp" where
  "test r s = (case exec r s of (None, r') \<Rightarrow> (False, r') | (Some x, r') \<Rightarrow> (True, r'))"

text \<open>
  The matches a global replacement collects, scanning the indices from left to right:
  an index below \<open>start\<close> (the current \<^verbatim>\<open>lastIndex\<close>) is skipped; after a match of
  length \<open>n\<close> at \<open>i\<close> the search goes on at \<open>i + n\<close>, or at \<open>i + 1\<close> when the match is
  empty.
\<close>

primrec collect :: "(string \<Rightarrow> nat \<Rightarrow> nat option) \<Rightarrow> string \<Rightarrow> nat list \<Rightarrow> nat \<Rightarrow> (nat \<times> nat) list" where
  "collect m s [] start = []"
| "collect m s (i # is) start =
     (if i < start then collect m s is start
      else case m s i of
          None \<Rightarrow> collect m s is start
        | Some n \<Rightarrow> (i, n) # collect m s is (if n = 0 then Suc i else i + n))"

text \<open>The result string: the text between the matches is copied as it is, each match
  is replaced by what the replacement function returns for it.\<close>

fun build :: "string \<Rightarrow> (string \<Rightarrow> string) \<Rightarrow> nat \<Rightarrow> (nat \<times> nat) list \<Rightarrow> string" where
  "build s f nextSourcePosition [] = drop nextSourcePosition s"
| "build s f nextSourcePosition ((position, n) # results) =
     (if nextSourcePosition \<le> position
      then slice s nextSourcePosition (position - nextSourcePosition) @ f (slice s position n)
             @ build s f (position + n) results
      else build s f nextSourcePosition results)"

definition replace :: "string \<Rightarrow> regexp \<Rightarrow> (string \<Rightarrow> string) \<Rightarrow> string \<times> regexp" where
  "replace s r f =
     (if global r
      then (build s f 0 (collect (matcher r) s [0..<Suc (length s)] 0), r\<lparr>lastIndex := 0\<rparr>)
      else case exec r s of
          (None, r') \<Rightarrow> (s, r')
        | (Some x, r') \<Rightarrow> (build s f 0 [x], r'))"

subsection \<open>Search module\<close>

text \<open>
  \<^verbatim>\<open>new RegExp(input, flags)\<close> is the platform's: it returns a compiled pattern or
  raises \<^verbatim>\<open>SyntaxError\<close>. \<open>compileRegex\<close> takes it as its first argument.
\<close>

datatype SyntaxError = SyntaxError

definition compileRegex ::
    "(string \<Rightarrow> string \<Rightarrow> SyntaxError + regexp) \<Rightarrow> string \<Rightarrow> string \<Rightarrow> regexp option" where
  "compileRegex RegExp_new input flags =
     (if input = [] then None
      else case RegExp_new input flags of Inl error \<Rightarrow> None | Inr r \<Rightarrow> Some r)"

text \<open>
  \<^verbatim>\<open>escapeHtml\<close> writes the text into a fresh element and reads its \<^verbatim>\<open>innerHTML\<close>
  back: the HTML serialisation of a text node replaces \<^verbatim>\<open>&\<close>, \<^verbatim>\<open><\<close>, \<^verbatim>\<open>>\<close> and the
  no-break space, and nothing else.
\<close>

definition escape_char :: "char \<Rightarrow> string" where
  "escape_char c =
     (if c = CHR ''&'' then ''&amp;''
      else if c = CHR ''<'' then ''&lt;''
      else if c = CHR ''>'' then ''&gt;''
      else if code c = 160 then ''&nbsp;''
      else [c])"

definition escapeHtml :: "string \<Rightarrow> string" where
  "escapeHtml text = (if text = [] then [] else concat (map escape_char text))"

definition mark :: "string \<Rightarrow> string" where
  "mark match = ''<mark>'' @ escapeHtml match @ ''</mark>''"

text \<open>
  \<open>highlight\<close> returns the markup and the pattern object as the call leaves it. On a
  string, \<^verbatim>\<open>test\<close> and \<^verbatim>\<open>replace\<close> do not raise, so the \<^verbatim>\<open>catch\<close> branch is not
  entered.
\<close>

definition highlight :: "string \<Rightarrow> regexp option \<Rightarrow> string \<times> regexp option" where
  "highlight text regex =
     (case regex of
        None \<Rightarrow> (escapeHtml text, None)
      | Some r \<Rightarrow>
          if text = [] then (escapeHtml text, Some r)
          else
            (let escapedText = escapeHtml text in
             case test r text of
               (False, r1) \<Rightarrow> (escapedText, Some r1)
             | (True, r1) \<Rightarrow>
                 (case replace text (r1\<lparr>lastIndex := 0\<rparr>) mark of
                    (out, r2) \<Rightarrow> (out, Some r2))))"

text \<open>
  The stored record. \<open>amount\<close> is a number; the decimal text of a number other than
  zero, which \<open>searchTransactions\<close> builds the searched text from, is the platform's
  \<^verbatim>\<open>Number::toString\<close> and is taken as the argument \<open>numstr\<close>.
\<close>

record 'n transaction =
  id' :: string
  description :: string
  amount :: 'n
  category :: string
  date :: string
  createdAt :: string
  updatedAt :: string

definition Number_toString :: "('n::zero \<Rightarrow> string) \<Rightarrow> 'n \<Rightarrow> string" where
  "Number_toString numstr n = (if n = 0 then ''0'' else numstr n)"

definition searchableText :: "('n::zero \<Rightarrow> string) \<Rightarrow> 'n transaction \<Rightarrow> string" where
  "searchableText numstr t =
     description t @ '' '' @ category t @ '' '' @ Number_toString numstr (amount t)"

text \<open>\<^verbatim>\<open>transactions.filter(...)\<close> with the stateful \<^verbatim>\<open>regex.test\<close> as its predicate.\<close>

fun filter_test ::
    "('n::zero \<Rightarrow> string) \<Rightarrow> regexp \<Rightarrow> 'n transaction list \<Rightarrow> 'n transaction list \<times> regexp" where
  "filter_test numstr r [] = ([], r)"
| "filter_test numstr r (t # ts) =
     (case test r (searchableText numstr t) of
        (keep, r1) \<Rightarrow>
          (case filter_test numstr r1 ts of
             (rest, r2) \<Rightarrow> (if keep then t # rest else rest, r2)))"

definition searchTransactions ::
    "('n::zero \<Rightarrow> string) \<Rightarrow> 'n transaction list \<Rightarrow> regexp option
       \<Rightarrow> 'n transaction list \<times> regexp option" where
  "searchTransactions numstr transactions regex =
     (case regex of
        None \<Rightarrow> (transactions, None)
      | Some r \<Rightarrow> (case filter_test numstr r transactions of (kept, r') \<Rightarrow> (kept, Some r')))"

text \<open>
  A host constructor for the literal fragment, used to run the functions above on
  concrete patterns. A pattern without any syntax character is compiled to the matcher
  of its literal text, up to case when the flags contain \<^verbatim>\<open>i\<close>; the group opener
  \<^verbatim>\<open>(\<close> alone, like every pattern with a syntax character that this fragment does not
  compile, is answered with \<^verbatim>\<open>SyntaxError\<close>.
\<close>

definition syntax_chars :: string where
  "syntax_chars = [CHR ''^'', CHR ''$'', CHR 0x5C, CHR ''.'', CHR ''*'', CHR ''+'', CHR ''?'',
     CHR ''('', CHR '')'', CHR ''['', CHR '']'', CHR ''{'', CHR ''}'', CHR ''|'']"

definition literal_matcher :: "string \<Rightarrow> bool \<Rightarrow> string \<Rightarrow> nat \<Rightarrow> nat option" where
  "literal_matcher p ignoreCase s i =
     (let candidate = slice s i (length p)
      in if i + length p \<le> length s
            \<and> (if ignoreCase then map canonicalize candidate = map canonicalize p
                else candidate = p)
         then Some (length p) else None)"

definition RegExp_literal :: "string \<Rightarrow> string \<Rightarrow> SyntaxError + regexp" where
  "RegExp_literal input flags =
     (if list_ex (\<lambda>c. c \<in> set syntax_chars) input then Inl SyntaxError
      else Inr \<lparr>matcher = literal_matcher input (CHR ''i'' \<in> set flags),
                global = (CHR ''g'' \<in> set flags), lastIndex = 0\<rparr>)"

subsection \<open>Bulk-import validation\<close>

text \<open>
  The argument of \<open>validateImportData\<close> is what \<^verbatim>\<open>JSON.parse\<close> returns. An object is
  the list of its members; reading a member that is absent yields \<^verbatim>\<open>undefined\<close>
  (\<open>None\<close>), also on a string, a number, a boolean and an array, none of which has a
  member of the names read here; reading a member of \<^verbatim>\<open>null\<close> raises \<^verbatim>\<open>TypeError\<close>,
  which is the first branch of \<open>check_record\<close>.
\<close>

datatype 'n json =
    JNull
  | JBool bool
  | JNum 'n
  | JStr string
  | JArr "'n json list"
  | JObj "(string \<times> 'n json) list"

datatype TypeError = TypeError

definition member_of :: "'n json \<Rightarrow> string \<Rightarrow> 'n json option" where
  "member_of v name = (case v of JObj members \<Rightarrow> map_of members name | _ \<Rightarrow> None)"

text \<open>\<^verbatim>\<open>!x\<close> is the negation of \<open>truthy\<close>.\<close>

definition truthy :: "('n::zero) json option \<Rightarrow> bool" where
  "truthy x =
     (case x of
        None \<Rightarrow> False
      | Some JNull \<Rightarrow> False
      | Some (JBool b) \<Rightarrow> b
      | Some (JNum n) \<Rightarrow> n \<noteq> 0
      | Some (JStr s) \<Rightarrow> s \<noteq> []
      | Some (JArr xs) \<Rightarrow> True
      | Some (JObj members) \<Rightarrow> True)"

definition is_string :: "'n json option \<Rightarrow> bool" where
  "is_string x = (case x of Some (JStr s) \<Rightarrow> True | _ \<Rightarrow> False)"

text \<open>\<^verbatim>\<open>typeof x !== 'number' || x <= 0\<close>\<close>

definition not_positive_number :: "('n::{zero,linorder}) json option \<Rightarrow> bool" where
  "not_positive_number x = (case x of Some (JNum n) \<Rightarrow> n \<le> 0 | _ \<Rightarrow> True)"

fun join :: "string list \<Rightarrow> string" where
  "join [] = []"
| "join [x] = x"
| "join (x # y # ys) = x @ '','' @ join (y # ys)"

text \<open>The texts of the elements of an array, up to the first conversion that raises.\<close>

fun texts :: "(TypeError + string) list \<Rightarrow> TypeError + string list" where
  "texts [] = Inr []"
| "texts (Inl e # rest) = Inl e"
| "texts (Inr s # rest) = (case texts rest of Inl e \<Rightarrow> Inl e | Inr ss \<Rightarrow> Inr (s # ss))"

text \<open>
  \<^verbatim>\<open>ToString\<close>, which \<^verbatim>\<open>RegExp.prototype.test\<close> applies to its argument. An array
  joins the texts of its elements with commas, \<^verbatim>\<open>null\<close> elements as empty text. An
  object is converted by its member \<^verbatim>\<open>toString\<close>: the inherited one answers
  \<^verbatim>\<open>[object Object]\<close>; an own member of that name, which in parsed JSON is never a
  function, hides it, the inherited \<^verbatim>\<open>valueOf\<close> (or an own one) yields no primitive
  either, and the conversion raises \<^verbatim>\<open>TypeError\<close>.
\<close>

fun ToString :: "('n::zero \<Rightarrow> string) \<Rightarrow> 'n json \<Rightarrow> TypeError + string" where
  "ToString numstr JNull = Inr ''null''"
| "ToString numstr (JBool b) = Inr (if b then ''true'' else ''false'')"
| "ToString numstr (JNum n) = Inr (Number_toString numstr n)"
| "ToString numstr (JStr s) = Inr s"
| "ToString numstr (JArr xs) =
     (case texts (map (\<lambda>x. case x of JNull \<Rightarrow> Inr [] | _ \<Rightarrow> ToString numstr x) xs) of
        Inl e \<Rightarrow> Inl e
      | Inr parts \<Rightarrow> Inr (join parts))"
| "ToString numstr (JObj members) =
     (case map_of members ''toString'' of
        Some own \<Rightarrow> Inl TypeError
      | None \<Rightarrow> Inr ''[object Object]'')"

text \<open>\<^verbatim>\<open>patterns.date.test(x)\<close>: the conversion of \<open>x\<close> to text may raise.\<close>

definition test_date :: "('n::zero \<Rightarrow> string) \<Rightarrow> 'n json option \<Rightarrow> TypeError + bool" where
  "test_date numstr x =
     (case x of
        None \<Rightarrow> Inr (test_anchored patterns_date ''undefined'')
      | Some v \<Rightarrow>
          (case ToString numstr v of
             Inl e \<Rightarrow> Inl e
           | Inr text \<Rightarrow> Inr (test_anchored patterns_date text)))"

definition digit_char :: "nat \<Rightarrow> char" where
  "digit_char k = char_of (48 + k)"

fun show_nat :: "nat \<Rightarrow> string" where
  "show_nat n = (if n < 10 then [digit_char n] else show_nat (n div 10) @ [digit_char (n mod 10)])"

definition record_message :: "nat \<Rightarrow> string \<Rightarrow> validation" where
  "record_message i what = invalid (''Record '' @ show_nat (i + 1) @ '': '' @ what)"

text \<open>
  The body of the loop, \<open>member name\<close> being the read of \<^verbatim>\<open>record.name\<close>: \<open>None\<close> when
  the record at index \<open>i\<close> passes every check, otherwise the result that the function
  returns at once. It raises \<^verbatim>\<open>TypeError\<close>
  where the source does: on reading a member of \<^verbatim>\<open>null\<close>, and in
  \<^verbatim>\<open>patterns.date.test(record.date)\<close>, reached when the date is truthy, on a date
  that cannot be converted to text.
\<close>

definition record_checks ::
    "('n::{zero,linorder} \<Rightarrow> string) \<Rightarrow> nat \<Rightarrow> (string \<Rightarrow> 'n json option)
       \<Rightarrow> TypeError + validation option" where
  "record_checks numstr i member =
     (if \<not> truthy (member ''id'') \<or> \<not> is_string (member ''id'')
        then Inr (Some (record_message i ''Invalid or missing id''))
      else if \<not> truthy (member ''description'') \<or> \<not> is_string (member ''description'')
        then Inr (Some (record_message i ''Invalid or missing description''))
      else if not_positive_number (member ''amount'')
        then Inr (Some (record_message i ''Invalid or missing amount''))
      else if \<not> truthy (member ''category'') \<or> \<not> is_string (member ''category'')
        then Inr (Some (record_message i ''Invalid or missing category''))
      else if \<not> truthy (member ''date'')
        then Inr (Some (record_message i ''Invalid or missing date''))
      else case test_date numstr (member ''date'') of
          Inl e \<Rightarrow> Inl e
        | Inr matches \<Rightarrow>
            if \<not> matches
              then Inr (Some (record_message i ''Invalid or missing date''))
            else if \<not> truthy (member ''createdAt'') \<or> \<not> truthy (member ''updatedAt'')
              then Inr (Some (record_message i ''Missing timestamps''))
            else Inr None)"

definition check_record ::
    "('n::{zero,linorder} \<Rightarrow> string) \<Rightarrow> nat \<Rightarrow> 'n json \<Rightarrow> TypeError + validation option" where
  "check_record numstr i record =
     (case record of
        JNull \<Rightarrow> Inl TypeError
      | _ \<Rightarrow> record_checks numstr i (member_of record))"

fun check_from ::
    "('n::{zero,linorder} \<Rightarrow> string) \<Rightarrow> nat \<Rightarrow> 'n json list \<Rightarrow> TypeError + validation" where
  "check_from numstr i [] = Inr \<lparr>valid = True, message = ''Data is valid''\<rparr>"
| "check_from numstr i (record # rest) =
     (case check_record numstr i record of
        Inl e \<Rightarrow> Inl e
      | Inr (Some failure) \<Rightarrow> Inr failure
      | Inr None \<Rightarrow> check_from numstr (Suc i) rest)"

definition validateImportData ::
    "('n::{zero,linorder} \<Rightarrow> string) \<Rightarrow> 'n json \<Rightarrow> TypeError + validation" where
  "validateImportData numstr data =
     (case data of
        JArr records \<Rightarrow> check_from numstr 0 records
      | _ \<Rightarrow> Inr (invalid ''Import data must be an array''))"

definition returns_valid :: "TypeError + validation \<Rightarrow> bool" where
  "returns_valid res = (case res of Inr v \<Rightarrow> valid v | Inl e \<Rightarrow> False)"

text \<open>
  The contract of the specification, in its words: a structured record with a non-empty
  string \<open>id\<close>, a non-empty string \<open>description\<close>, a numeric \<open>amount\<close> above zero, a
  non-empty string \<open>category\<close>, a \<open>date\<close> of the date shape, and both timestamps. The
  argument \<open>stamp_ok\<close> is what "present" means for a timestamp.
\<close>

definition nonempty_string :: "'n json option \<Rightarrow> bool" where
  "nonempty_string x = (case x of Some (JStr s) \<Rightarrow> s \<noteq> [] | _ \<Rightarrow> False)"

definition positive_number :: "('n::{zero,linorder}) json option \<Rightarrow> bool" where
  "positive_number x = (case x of Some (JNum n) \<Rightarrow> 0 < n | _ \<Rightarrow> False)"

definition has_date_shape :: "('n::zero \<Rightarrow> string) \<Rightarrow> 'n json option \<Rightarrow> bool" where
  "has_date_shape numstr x =
     (case x of
        None \<Rightarrow> False
      | Some v \<Rightarrow>
          (case ToString numstr v of
             Inl e \<Rightarrow> False
           | Inr text \<Rightarrow> test_anchored patterns_date text))"

text \<open>The date of a record can be converted to text, or the record has none.\<close>

definition date_readable :: "('n::zero \<Rightarrow> string) \<Rightarrow> 'n json \<Rightarrow> bool" where
  "date_readable numstr v =
     (case member_of v ''date'' of
        None \<Rightarrow> True
      | Some d \<Rightarrow> (case ToString numstr d of Inl e \<Rightarrow> False | Inr text \<Rightarrow> True))"

definition is_record :: "'n json \<Rightarrow> bool" where
  "is_record v = (case v of JObj members \<Rightarrow> True | _ \<Rightarrow> False)"

definition import_contract ::
    "(('n::{zero,linorder}) json option \<Rightarrow> bool) \<Rightarrow> ('n \<Rightarrow> string) \<Rightarrow> 'n json \<Rightarrow> bool" where
  "import_contract stamp_ok numstr v =
     (is_record v
      \<and> nonempty_string (member_of v ''id'')
      \<and> nonempty_string (member_of v ''description'')
      \<and> positive_number (member_of v ''amount'')
      \<and> nonempty_string (member_of v ''category'')
      \<and> has_date_shape numstr (member_of v ''date'')
      \<and> stamp_ok (member_of v ''createdAt'')
      \<and> stamp_ok (member_of v ''updatedAt''))"

definition present :: "'n json option \<Rightarrow> bool" where
  "present x = (case x of None \<Rightarrow> False | Some v \<Rightarrow> True)"

subsection \<open>Record store: sorted view\<close>

text \<open>
  Of the application state, the functions modelled here read the transaction list and
  the current sort. The sort field is the name of one of the seven members of a record;
  with any other name \<^verbatim>\<open>aVal.toString()\<close> raises on \<^verbatim>\<open>undefined\<close>, and the type
  leaves such names out.
\<close>

datatype sort_field = Id | Description | Amount | Category | Date | CreatedAt | UpdatedAt

record sort_order =
  field :: sort_field
  ascending :: bool

record 'n state =
  transactions :: "'n transaction list"
  currentSort :: sort_order

text \<open>
  The values the comparator compares: a number for \<^verbatim>\<open>amount\<close> (\<^verbatim>\<open>parseFloat\<close> of a
  number is that number), the time value of a \<^verbatim>\<open>Date\<close> for \<^verbatim>\<open>date\<close> (\<open>None\<close> for the
  NaN of an invalid date), lower-case text for the others.
\<close>

datatype 'n sort_value = NumVal 'n | TimeVal "int option" | TextVal string

definition toLowerCase_char :: "char \<Rightarrow> char" where
  "toLowerCase_char c =
     (if in_range CHR ''A'' CHR ''Z'' c then char_of (code c + 32)
      else if 192 \<le> code c \<and> code c \<le> 222 \<and> code c \<noteq> 215 then char_of (code c + 32)
      else c)"

definition toLowerCase :: "string \<Rightarrow> string" where
  "toLowerCase s = map toLowerCase_char s"

definition sort_value :: "host \<Rightarrow> sort_field \<Rightarrow> 'n transaction \<Rightarrow> 'n sort_value" where
  "sort_value h f t =
     (case f of
        Amount \<Rightarrow> NumVal (amount t)
      | Date \<Rightarrow> TimeVal (Date_parse h (date t))
      | Id \<Rightarrow> TextVal (toLowerCase (id' t))
      | Description \<Rightarrow> TextVal (toLowerCase (description t))
      | Category \<Rightarrow> TextVal (toLowerCase (category t))
      | CreatedAt \<Rightarrow> TextVal (toLowerCase (createdAt t))
      | UpdatedAt \<Rightarrow> TextVal (toLowerCase (updatedAt t)))"

text \<open>\<^verbatim>\<open>aVal < bVal\<close>: numbers by value, false when either is NaN; strings by code units.\<close>

fun js_less :: "('n::linorder) sort_value \<Rightarrow> 'n sort_value \<Rightarrow> bool" where
  "js_less (NumVal x) (NumVal y) = (x < y)"
| "js_less (TimeVal (Some x)) (TimeVal (Some y)) = (x < y)"
| "js_less (TextVal x) (TextVal y) = (x < y)"
| "js_less _ _ = False"

definition compare ::
    "host \<Rightarrow> sort_order \<Rightarrow> ('n::linorder) transaction \<Rightarrow> 'n transaction \<Rightarrow> int" where
  "compare h order a b =
     (let aVal = sort_value h (field order) a; bVal = sort_value h (field order) b
      in if js_less aVal bVal then (if ascending order then - 1 else 1)
         else if js_less bVal aVal then (if ascending order then 1 else - 1)
         else 0)"

text \<open>
  \<^verbatim>\<open>Array.prototype.sort\<close> is stable. When the comparator is a consistent ordering of
  the elements, every conforming engine returns the list that a stable insertion sort
  returns; otherwise the order is left to the engine, and the model is insertion sort.
\<close>

fun insert_by :: "('a \<Rightarrow> 'a \<Rightarrow> int) \<Rightarrow> 'a \<Rightarrow> 'a list \<Rightarrow> 'a list" where
  "insert_by cmp x [] = [x]"
| "insert_by cmp x (y # ys) = (if cmp x y \<le> 0 then x # y # ys else y # insert_by cmp x ys)"

definition sort_by :: "('a \<Rightarrow> 'a \<Rightarrow> int) \<Rightarrow> 'a list \<Rightarrow> 'a list" where
  "sort_by cmp xs = foldr (insert_by cmp) xs []"

definition getSortedTransactions :: "host \<Rightarrow> ('n::linorder) state \<Rightarrow> 'n transaction list" where
  "getSortedTransactions h st = sort_by (compare h (currentSort st)) (transactions st)"

definition setSort :: "sort_field \<Rightarrow> bool \<Rightarrow> 'n state \<Rightarrow> 'n state" where
  "setSort f asc st = st\<lparr>currentSort := \<lparr>field = f, ascending = asc\<rparr>\<rparr>"

subsection \<open>Record store: statistics\<close>

text \<open>
  \<^verbatim>\<open>categoryTotals\<close> is an object used as a dictionary. Its own properties are kept in
  the order of their creation. A value is a number, or the text that \<^verbatim>\<open>+\<close> produces
  when the name read is inherited from \<^verbatim>\<open>Object.prototype\<close> (the inherited member is
  truthy, so it is concatenated with the amount); a text is NaN in a comparison. An
  assignment to \<^verbatim>\<open>__proto__\<close> of a value that is not an object stores nothing.
\<close>

datatype 'n total = Num 'n | NotANumber

definition Object_prototype_names :: "string list" where
  "Object_prototype_names =
     [''constructor'', ''hasOwnProperty'', ''isPrototypeOf'', ''propertyIsEnumerable'',
      ''toLocaleString'', ''toString'', ''valueOf'', ''__defineGetter__'', ''__defineSetter__'',
      ''__lookupGetter__'', ''__lookupSetter__'', ''__proto__'']"

text \<open>\<^verbatim>\<open>categoryTotals[t.category] = (categoryTotals[t.category] || 0) + t.amount\<close>\<close>

definition accumulate ::
    "(string \<times> ('n::{zero,plus}) total) list \<Rightarrow> 'n transaction \<Rightarrow> (string \<times> 'n total) list" where
  "accumulate categoryTotals t =
     (case map_of categoryTotals (category t) of
        Some (Num v) \<Rightarrow>
          AList.update (category t) (Num ((if v = 0 then 0 else v) + amount t)) categoryTotals
      | Some NotANumber \<Rightarrow> categoryTotals
      | None \<Rightarrow>
          if category t = ''__proto__'' then categoryTotals
          else if category t \<in> set Object_prototype_names
            then AList.update (category t) NotANumber categoryTotals
          else AList.update (category t) (Num (0 + amount t)) categoryTotals)"

text \<open>
  \<^verbatim>\<open>Object.entries\<close> lists the own properties whose name is an array index (the
  canonical decimal text of an integer from 0 to \<open>2^32 - 2\<close>) first, in ascending numeric
  order, and then the others in the order of their creation.
\<close>

definition is_array_index :: "string \<Rightarrow> bool" where
  "is_array_index name =
     (name \<noteq> [] \<and> list_all is_digit name \<and> (name = ''0'' \<or> hd name \<noteq> CHR ''0'')
      \<and> digits_value name \<le> 4294967294)"

definition entries :: "(string \<times> 'v) list \<Rightarrow> (string \<times> 'v) list" where
  "entries obj =
     sort_key (\<lambda>p. digits_value (fst p)) (filter (\<lambda>p. is_array_index (fst p)) obj)
       @ filter (\<lambda>p. \<not> is_array_index (fst p)) obj"

text \<open>The body of the loop over the entries: \<^verbatim>\<open>if (amount > topAmount) {...}\<close>.\<close>

fun top_step :: "string \<times> ('n::linorder) \<Rightarrow> string \<times> 'n total \<Rightarrow> string \<times> 'n" where
  "top_step (topCategory', topAmount) (c, Num a) =
     (if a > topAmount then (c, a) else (topCategory', topAmount))"
| "top_step (topCategory', topAmount) (c, NotANumber) = (topCategory', topAmount)"

definition dated_within :: "host \<Rightarrow> int \<Rightarrow> 'n transaction \<Rightarrow> bool" where
  "dated_within h sevenDaysAgo t =
     (case Date_parse h (date t) of None \<Rightarrow> False | Some d \<Rightarrow> d \<ge> sevenDaysAgo)"

text \<open>The result, without \<^verbatim>\<open>categoryBreakdown\<close>.\<close>

record 'n stats =
  total :: nat
  totalSpent :: 'n
  topCategory :: string
  last7Days :: 'n

definition calculateStats :: "host \<Rightarrow> ('n::{zero,plus,linorder}) state \<Rightarrow> 'n stats" where
  "calculateStats h st =
     (let categoryTotals = foldl accumulate [] (transactions st);
          sevenDaysAgo = setDate_back h (now h) 7
      in \<lparr>total = length (transactions st),
          totalSpent = foldl (\<lambda>sum t. sum + amount t) 0 (transactions st),
          topCategory = fst (foldl top_step (''-'', 0) (entries categoryTotals)),
          last7Days = foldl (\<lambda>sum t. sum + amount t) 0
                        (filter (dated_within h sevenDaysAgo) (transactions st))\<rparr>)"

subsection \<open>The tie-break of the top category, in the words of the specification\<close>

text \<open>
  The amount sum of a category is accumulated from left to right over the records of
  that category. \<open>first_seen\<close> lists the categories in the order in which the
  accumulation first meets them. \<open>first_highest\<close> is the first of them whose sum no
  other sum exceeds: among the categories tied for the highest sum, the one that was
  encountered first.
\<close>

definition category_sum :: "('n::{zero,plus}) transaction list \<Rightarrow> string \<Rightarrow> 'n" where
  "category_sum txs c = foldl (+) 0 (map amount (filter (\<lambda>t. category t = c) txs))"

definition first_seen :: "'a list \<Rightarrow> 'a list" where
  "first_seen xs = rev (remdups (rev xs))"

definition first_highest :: "('n::{zero,plus,linorder}) transaction list \<Rightarrow> string option" where
  "first_highest txs =
     (let cats = first_seen (map category txs)
      in find (\<lambda>c. list_all (\<lambda>c'. category_sum txs c' \<le> category_sum txs c) cats) cats)"

text \<open>A category name that is no array index and no member of \<^verbatim>\<open>Object.prototype\<close>.\<close>

definition ordinary_name :: "string \<Rightarrow> bool" where
  "ordinary_name c = (\<not> is_array_index c \<and> list_all (\<lambda>name. name \<noteq> c) Object_prototype_names)"

subsection \<open>Ties and comparable values of the sorted view\<close>

text \<open>
  Two records are tied when the comparator returns zero for them; \<open>no_ties\<close> says that
  no two records at different positions are. A record is comparable in a field unless
  the field is the date and its date is invalid, in which case every comparison with
  it is false and the comparator is no ordering.
\<close>

definition no_ties :: "host \<Rightarrow> sort_field \<Rightarrow> ('n::linorder) transaction list \<Rightarrow> bool" where
  "no_ties h f txs =
     sorted_wrt (\<lambda>a b. compare h \<lparr>field = f, ascending = True\<rparr> a b \<noteq> 0) txs"

definition comparable :: "host \<Rightarrow> sort_field \<Rightarrow> 'n transaction \<Rightarrow> bool" where
  "comparable h f t = (case sort_value h f t of TimeVal None \<Rightarrow> False | _ \<Rightarrow> True)"

text \<open>The time value of a record's date, for a record whose date is valid.\<close>

definition time_of :: "host \<Rightarrow> 'n transaction \<Rightarrow> int" where
  "time_of h t = (case Date_parse h (date t) of Some d \<Rightarrow> d | None \<Rightarrow> 0)"

section \<open>Properties\<close>

subsection \<open>Concrete inputs used below\<close>

definition show_int :: "int \<Rightarrow> string" where
  "show_int n = (if n < 0 then CHR ''-'' # show_nat (nat (- n)) else show_nat (nat n))"

definition lunch :: "int transaction" where
  "lunch = \<lparr>id' = ''txn_1'', description = ''Lunch at cafeteria'', amount = 12,
     category = ''Food'', date = ''2025-09-25'', createdAt = ''2025-09-25T12:00:00Z'',
     updatedAt = ''2025-09-25T12:00:00Z''\<rparr>"

definition textbook :: "int transaction" where
  "textbook = \<lparr>id' = ''txn_2'', description = ''Chemistry textbook'', amount = 89,
     category = ''Books'', date = ''2025-09-23'', createdAt = ''2025-09-23T10:30:00Z'',
     updatedAt = ''2025-09-23T10:30:00Z''\<rparr>"

text \<open>A host two hours east of UTC, at 2025-06-15 08:00 UTC, which is 10:00 local time.\<close>

definition host_east :: host where
  "host_east = \<lparr>now = 1749974400000, LocalTZA = (\<lambda>t isUTC. 7200000), lenient_dates = False\<rparr>"

text \<open>Import records: one that meets every check, and one whose \<open>createdAt\<close> is
  present but empty.\<close>

definition seed_record :: "int json" where
  "seed_record = JObj [(''id'', JStr ''txn_1''), (''description'', JStr ''Lunch at cafeteria''),
     (''amount'', JNum 12), (''category'', JStr ''Food''), (''date'', JStr ''2025-09-25''),
     (''createdAt'', JStr ''2025-09-25T12:00:00Z''), (''updatedAt'', JStr ''2025-09-25T12:00:00Z'')]"

definition empty_stamp_record :: "int json" where
  "empty_stamp_record = JObj [(''id'', JStr ''txn_2''), (''description'', JStr ''Chemistry textbook''),
     (''amount'', JNum 89), (''category'', JStr ''Books''), (''date'', JStr ''2025-09-23''),
     (''createdAt'', JStr []), (''updatedAt'', JStr ''2025-09-23T10:30:00Z'')]"

text \<open>Import records whose date cannot be converted to text.\<close>

definition unreadable_date_record :: "int json" where
  "unreadable_date_record = JObj [(''id'', JStr ''txn_3''), (''description'', JStr ''Bus ticket''),
     (''amount'', JNum 3), (''category'', JStr ''Transport''),
     (''date'', JObj [(''toString'', JStr ''2025-09-23'')]),
     (''createdAt'', JStr ''2025-09-23T10:30:00Z''), (''updatedAt'', JStr ''2025-09-23T10:30:00Z'')]"

definition unreadable_date_in_array :: "int json" where
  "unreadable_date_in_array = JObj [(''id'', JStr ''txn_4''), (''description'', JStr ''Bus ticket''),
     (''amount'', JNum 3), (''category'', JStr ''Transport''),
     (''date'', JArr [JObj [(''toString'', JStr ''2025-09-23'')]]),
     (''createdAt'', JStr ''2025-09-23T10:30:00Z''), (''updatedAt'', JStr ''2025-09-23T10:30:00Z'')]"

text \<open>A store of three records dated, for \<open>host_east\<close>, today, three days ago and ten
  days ago.\<close>

definition paid_today :: "rat transaction" where
  "paid_today = \<lparr>id' = ''txn_a'', description = ''Bus ticket'', amount = 10,
     category = ''Transport'', date = ''2025-06-15'', createdAt = ''2025-06-15T08:00:00Z'',
     updatedAt = ''2025-06-15T08:00:00Z''\<rparr>"

definition paid_3_days_ago :: "rat transaction" where
  "paid_3_days_ago = \<lparr>id' = ''txn_b'', description = ''Lunch'', amount = 20,
     category = ''Food'', date = ''2025-06-12'', createdAt = ''2025-06-12T08:00:00Z'',
     updatedAt = ''2025-06-12T08:00:00Z''\<rparr>"

definition paid_10_days_ago :: "rat transaction" where
  "paid_10_days_ago = \<lparr>id' = ''txn_c'', description = ''Notebook'', amount = 30,
     category = ''Books'', date = ''2025-06-05'', createdAt = ''2025-06-05T08:00:00Z'',
     updatedAt = ''2025-06-05T08:00:00Z''\<rparr>"

definition week_store :: "rat state" where
  "week_store = \<lparr>transactions = [paid_10_days_ago, paid_today, paid_3_days_ago],
     currentSort = \<lparr>field = Date, ascending = False\<rparr>\<rparr>"

text \<open>Two stores with a tie for the highest sum: \<open>Food\<close> 50 against \<open>Books\<close> 20 + 30, and
  \<open>Food\<close> 50 against a category named \<open>7\<close> with 50.\<close>

definition spent :: "string \<Rightarrow> rat \<Rightarrow> rat transaction" where
  "spent c a = \<lparr>id' = ''txn'', description = ''Purchase'', amount = a, category = c,
     date = ''2025-06-15'', createdAt = ''2025-06-15T08:00:00Z'',
     updatedAt = ''2025-06-15T08:00:00Z''\<rparr>"

definition tie_store :: "rat state" where
  "tie_store = \<lparr>transactions = [spent ''Food'' 50, spent ''Books'' 20, spent ''Books'' 30],
     currentSort = \<lparr>field = Date, ascending = False\<rparr>\<rparr>"

definition index_store :: "rat state" where
  "index_store = \<lparr>transactions = [spent ''Food'' 50, spent ''7'' 50],
     currentSort = \<lparr>field = Date, ascending = False\<rparr>\<rparr>"

text \<open>A store of four records with distinct dates of the date shape, one of which,
  \<^verbatim>\<open>2025-02-30\<close>, a strict host reads as an invalid date.\<close>

definition dated :: "string \<Rightarrow> rat transaction" where
  "dated d = \<lparr>id' = ''txn'', description = ''Purchase'', amount = 5, category = ''Food'',
     date = d, createdAt = ''2025-03-01T08:00:00Z'', updatedAt = ''2025-03-01T08:00:00Z''\<rparr>"

definition invalid_date_store :: "rat state" where
  "invalid_date_store =
     \<lparr>transactions = [dated ''2025-01-03'', dated ''2025-01-01'', dated ''2025-02-30'',
        dated ''2025-01-02''],
      currentSort = \<lparr>field = Date, ascending = False\<rparr>\<rparr>"

text \<open>A host on UTC at the same instant, strict and lenient about day numbers.\<close>

definition host_utc :: host where
  "host_utc = \<lparr>now = 1749974400000, LocalTZA = (\<lambda>t isUTC. 0), lenient_dates = False\<rparr>"

definition host_lenient :: host where
  "host_lenient = \<lparr>now = 1749974400000, LocalTZA = (\<lambda>t isUTC. 0), lenient_dates = True\<rparr>"

subsection \<open>Search and highlighting\<close>

text \<open>
  C1 (as the code behaves). \<open>highlight\<close> escapes the matches only: the text between
  and around them is copied from the unescaped source. With the pattern \<^verbatim>\<open>/script/i\<close>
  the text \<^verbatim>\<open><script>\<close> becomes \<^verbatim>\<open><<mark>script</mark>>\<close>, in which both angle
  brackets of the source survive unescaped.
\<close>

theorem highlight_leaves_unmatched_text_unescaped:
  "fst (highlight ''<script>'' (compileRegex RegExp_literal ''script'' ''i''))
     = ''<<mark>script</mark>>''"
  by code_simp

text \<open>The same text comes out under the flags \<^verbatim>\<open>gi\<close>, which the records view passes.\<close>

lemma highlight_global_flag:
  "fst (highlight ''<script>'' (compileRegex RegExp_literal ''script'' ''gi''))
     = ''<<mark>script</mark>>''"
  by code_simp

text \<open>
  C2. When the platform's constructor raises \<^verbatim>\<open>SyntaxError\<close> on the pattern,
  \<open>compileRegex\<close> returns the no-pattern result instead of raising, and
  \<open>searchTransactions\<close> given that result returns the record list unchanged.
\<close>

theorem compileRegex_malformed_no_filter:
  assumes "RegExp_new input flags = Inl SyntaxError"
  shows "compileRegex RegExp_new input flags = None
     \<and> fst (searchTransactions numstr records (compileRegex RegExp_new input flags))
         = records"
  using assms by (simp add: compileRegex_def searchTransactions_def)

theorem compileRegex_malformed_no_filter_witness:
  "RegExp_literal ''('' ''gi'' = Inl SyntaxError
   \<and> compileRegex RegExp_literal ''('' ''gi'' = None
   \<and> fst (searchTransactions show_int [lunch, textbook] (compileRegex RegExp_literal ''('' ''gi''))
       = [lunch, textbook]"
proof -
  have malformed: "RegExp_literal ''('' ''gi'' = Inl SyntaxError"
    by (simp add: RegExp_literal_def syntax_chars_def)
  show ?thesis
    using malformed
      compileRegex_malformed_no_filter [where RegExp_new = RegExp_literal and input = "''(''"
        and flags = "''gi''" and numstr = show_int and records = "[lunch, textbook]"]
    by blast
qed

text \<open>
  C10. For the empty pattern string \<open>compileRegex\<close> returns the no-pattern result
  without calling the platform's constructor, whatever that constructor would do, and
  \<open>searchTransactions\<close> given that result returns the full record list.
\<close>

theorem compileRegex_empty_is_no_pattern:
  "compileRegex RegExp_new [] flags = None
   \<and> fst (searchTransactions numstr records (compileRegex RegExp_new [] flags))
       = records"
  by (simp add: compileRegex_def searchTransactions_def)

subsection \<open>Field validators\<close>

text \<open>
  C3 (as the code behaves). The description \<^verbatim>\<open>a  b\<close>, with two adjacent spaces
  inside, passes every check of \<open>validateDescription\<close>: the shape pattern constrains
  the first and the last character only.
\<close>

theorem validateDescription_accepts_double_space:
  "validateDescription ''a  b'' = \<lparr>valid = True, message = []\<rparr>"
  by code_simp

text \<open>
  C4 (as the code behaves). On a host east of UTC, today's date is rejected as a future
  date: the text is read as UTC midnight of its day and compared with local midnight,
  which is earlier. The host here is at 10:00 local time on 2025-06-15, and the date
  validated is that local day.
\<close>

theorem validateDate_rejects_today_east_of_utc:
  "Date_parse host_east ''2025-06-15'' = Some (Day (LocalTime host_east (now host_east)) * msPerDay)
   \<and> validateDate host_east ''2025-06-15''
       = \<lparr>valid = False, message = ''Date cannot be in the future''\<rparr>"
  unfolding host_east_def by code_simp

lemma validateAmount_12_5: "validateAmount ''12.5'' = \<lparr>valid = True, message = []\<rparr>"
  by code_simp

lemma validateAmount_12_50: "validateAmount ''12.50'' = \<lparr>valid = True, message = []\<rparr>"
  by code_simp

lemma validateAmount_12_505:
  "validateAmount ''12.505''
     = \<lparr>valid = False, message = ''Amount must be a valid number with up to 2 decimal places''\<rparr>"
  by code_simp

lemma validateAmount_0:
  "validateAmount ''0'' = \<lparr>valid = False, message = ''Amount must be greater than 0''\<rparr>"
  by code_simp

lemma validateAmount_1000000:
  "validateAmount ''1000000'' = \<lparr>valid = False, message = ''Amount must be less than 1,000,000''\<rparr>"
  by code_simp

text \<open>
  C6. \<open>validateAmount\<close> accepts \<^verbatim>\<open>12.5\<close> and \<^verbatim>\<open>12.50\<close>, and rejects \<^verbatim>\<open>12.505\<close> (three
  fractional digits), \<^verbatim>\<open>0\<close> (not above zero) and \<^verbatim>\<open>1000000\<close> (above 999999.99).
\<close>

theorem validateAmount_examples:
  "valid (validateAmount ''12.5'') \<and> valid (validateAmount ''12.50'')
   \<and> validateAmount ''12.505''
       = \<lparr>valid = False, message = ''Amount must be a valid number with up to 2 decimal places''\<rparr>
   \<and> validateAmount ''0'' = \<lparr>valid = False, message = ''Amount must be greater than 0''\<rparr>
   \<and> validateAmount ''1000000''
       = \<lparr>valid = False, message = ''Amount must be less than 1,000,000''\<rparr>"
  by (simp add: validateAmount_12_5 validateAmount_12_50 validateAmount_12_505 validateAmount_0
      validateAmount_1000000)

subsection \<open>Bulk-import validation\<close>

lemma date_test_null: "test_anchored patterns_date ''null'' = False" by code_simp
lemma date_test_false: "test_anchored patterns_date ''false'' = False" by code_simp
lemma date_test_zero: "test_anchored patterns_date ''0'' = False" by code_simp
lemma date_test_empty: "test_anchored patterns_date [] = False" by code_simp

lemma falsy_has_no_date_shape:
  "\<not> truthy (Some v) \<Longrightarrow> \<exists>text. ToString numstr v = Inr text \<and> \<not> test_anchored patterns_date text"
  by (cases v)
    (auto simp: truthy_def Number_toString_def date_test_null date_test_false date_test_zero
      date_test_empty)

lemma truthy_string: "(truthy x \<and> is_string x) = nonempty_string x"
  by (auto simp: truthy_def is_string_def nonempty_string_def split: option.splits json.splits)

lemma positive_number_iff: "(\<not> not_positive_number x) = positive_number x"
  by (auto simp: not_positive_number_def positive_number_def split: option.splits json.splits)

lemma date_check_iff: "(truthy x \<and> test_date numstr x = Inr True) = has_date_shape numstr x"
proof (cases x)
  case None
  then show ?thesis by (simp add: truthy_def has_date_shape_def)
next
  case (Some v)
  show ?thesis
  proof (cases "truthy (Some v)")
    case True
    then show ?thesis
      by (simp add: Some test_date_def has_date_shape_def split: sum.splits)
  next
    case False
    from falsy_has_no_date_shape [OF False, of numstr] False show ?thesis
      by (auto simp: Some has_date_shape_def)
  qed
qed

lemma check_record_nonnull:
  "v \<noteq> JNull \<Longrightarrow> check_record numstr i v = record_checks numstr i (member_of v)"
  by (cases v) (simp_all add: check_record_def)

text \<open>The three outcomes of the loop body.\<close>

lemma record_checks_outcomes:
  "record_checks numstr i member = Inr None
   \<or> (\<exists>what. record_checks numstr i member = Inr (Some (record_message i what)))
   \<or> (\<exists>e. record_checks numstr i member = Inl e)"
  by (simp add: record_checks_def split: sum.splits) blast

lemma check_record_outcomes:
  "check_record numstr i v = Inr None
   \<or> (\<exists>what. check_record numstr i v = Inr (Some (record_message i what)))
   \<or> (\<exists>e. check_record numstr i v = Inl e)"
proof (cases "v = JNull")
  case True
  then show ?thesis by (simp add: check_record_def)
next
  case False
  then show ?thesis
    using record_checks_outcomes [of numstr i "member_of v"] by (simp add: check_record_nonnull)
qed

lemma check_record_raises:
  assumes "check_record numstr i v = Inl e"
  shows "v = JNull \<or> \<not> date_readable numstr v"
proof (cases "v = JNull")
  case True
  then show ?thesis by simp
next
  case False
  with assms have "record_checks numstr i (member_of v) = Inl e"
    by (simp add: check_record_nonnull)
  then have "\<not> date_readable numstr v"
    by (auto simp: record_checks_def test_date_def date_readable_def truthy_def
        split: sum.splits if_splits option.splits)
  then show ?thesis by simp
qed

lemma record_checks_pass:
  "(record_checks numstr i member = Inr None) =
     (truthy (member ''id'') \<and> is_string (member ''id'')
      \<and> truthy (member ''description'') \<and> is_string (member ''description'')
      \<and> \<not> not_positive_number (member ''amount'')
      \<and> truthy (member ''category'') \<and> is_string (member ''category'')
      \<and> truthy (member ''date'') \<and> test_date numstr (member ''date'') = Inr True
      \<and> truthy (member ''createdAt'') \<and> truthy (member ''updatedAt''))"
  by (auto simp: record_checks_def split: sum.splits)

lemma check_record_passes:
  "(check_record numstr i v = Inr None) = import_contract truthy numstr v"
proof (cases "is_record v")
  case False
  then show ?thesis
    by (cases v) (simp_all add: check_record_def record_checks_def import_contract_def
        is_record_def member_of_def truthy_def)
next
  case True
  then have nonnull: "v \<noteq> JNull" by (auto simp: is_record_def)
  show ?thesis
    using True truthy_string [of "member_of v ''id''"] truthy_string [of "member_of v ''description''"]
      truthy_string [of "member_of v ''category''"] positive_number_iff [of "member_of v ''amount''"]
      date_check_iff [of "member_of v ''date''" numstr]
    unfolding check_record_nonnull [OF nonnull] record_checks_pass import_contract_def by blast
qed

lemma check_record_fails:
  assumes "v \<noteq> JNull" and "date_readable numstr v" and "\<not> import_contract truthy numstr v"
  shows "\<exists>what. check_record numstr i v = Inr (Some (record_message i what))"
  using check_record_outcomes [of numstr i v] check_record_raises [of numstr i v] assms
  by (auto simp: check_record_passes)

lemma check_from_valid:
  "returns_valid (check_from numstr i records) = list_all (import_contract truthy numstr) records"
proof (induction records arbitrary: i)
  case Nil
  then show ?case by (simp add: returns_valid_def)
next
  case (Cons r rs)
  show ?case
  proof (cases "import_contract truthy numstr r")
    case True
    then have "check_record numstr i r = Inr None" by (simp add: check_record_passes)
    then show ?thesis using Cons.IH [of "Suc i"] True by simp
  next
    case False
    then have "check_record numstr i r \<noteq> Inr None" by (simp add: check_record_passes)
    with check_record_outcomes [of numstr i r]
    have "\<not> returns_valid (check_from numstr i (r # rs))"
      by (auto simp: returns_valid_def record_message_def invalid_def)
    with False show ?thesis by simp
  qed
qed

lemma check_from_first_failure:
  assumes "list_all (import_contract truthy numstr) pre"
    and "\<not> import_contract truthy numstr x" and "x \<noteq> JNull" and "date_readable numstr x"
  shows "\<exists>what. check_from numstr i (pre @ x # post) = Inr (record_message (i + length pre) what)"
  using assms(1)
proof (induction pre arbitrary: i)
  case Nil
  from check_record_fails [OF assms(3) assms(4) assms(2), of i]
  obtain what where "check_record numstr i x = Inr (Some (record_message i what))" by blast
  then show ?case by auto
next
  case (Cons r rs)
  then have "check_record numstr i r = Inr None" by (simp add: check_record_passes)
  moreover from Cons.prems have "list_all (import_contract truthy numstr) rs" by simp
  from Cons.IH [OF this, of "Suc i"]
  have "\<exists>what. check_from numstr (Suc i) (rs @ x # post) = Inr (record_message (Suc i + length rs) what)" .
  ultimately show ?case by simp
qed

text \<open>
  C5 (as stated, with "present" read as "the record has the member"). A record that
  meets the contract and whose \<open>createdAt\<close> member is present but empty is rejected:
  the check is on the truth value of the timestamp, not on its presence.
\<close>

theorem validateImportData_rejects_empty_timestamp:
  "import_contract present show_int empty_stamp_record
   \<and> validateImportData show_int (JArr [empty_stamp_record])
       = Inr \<lparr>valid = False, message = ''Record 1: Missing timestamps''\<rparr>"
  by code_simp

text \<open>
  C5 (amended). \<open>validateImportData\<close> returns \<^verbatim>\<open>valid: true\<close> exactly when every
  element is a structured record with a non-empty string \<open>id\<close>, a non-empty string
  \<open>description\<close>, a numeric \<open>amount\<close> above zero, a non-empty string \<open>category\<close>, a
  \<open>date\<close> whose text has the date shape, and both timestamps present with a truthy value
  (not \<^verbatim>\<open>null\<close>, \<^verbatim>\<open>false\<close>, \<^verbatim>\<open>0\<close> or the empty string). When the first element that
  violates this is not \<^verbatim>\<open>null\<close> and its date, if it has one, can be converted to text,
  the result is \<^verbatim>\<open>valid: false\<close> with a message that starts with \<^verbatim>\<open>Record k:\<close>, \<open>k\<close>
  being the 1-based position of that element.
\<close>

theorem validateImportData_contract:
  "returns_valid (validateImportData numstr (JArr records))
     = list_all (import_contract truthy numstr) records
   \<and> (list_all (import_contract truthy numstr) pre \<and> \<not> import_contract truthy numstr x
        \<and> x \<noteq> JNull \<and> date_readable numstr x
      \<longrightarrow> (\<exists>what. validateImportData numstr (JArr (pre @ x # post))
             = Inr \<lparr>valid = False, message = ''Record '' @ show_nat (length pre + 1) @ '': '' @ what\<rparr>))"
  using check_from_first_failure [of numstr pre x 0 post]
  by (simp add: validateImportData_def check_from_valid record_message_def invalid_def)

theorem validateImportData_contract_witness:
  "returns_valid (validateImportData show_int (JArr [seed_record, seed_record]))
   \<and> list_all (import_contract truthy show_int) [seed_record]
   \<and> \<not> import_contract truthy show_int empty_stamp_record
   \<and> empty_stamp_record \<noteq> JNull
   \<and> date_readable show_int empty_stamp_record
   \<and> (\<exists>what. validateImportData show_int (JArr ([seed_record] @ empty_stamp_record # [seed_record]))
         = Inr \<lparr>valid = False, message = ''Record '' @ show_nat (length [seed_record] + 1) @ '': '' @ what\<rparr>)"
proof -
  have both: "list_all (import_contract truthy show_int) [seed_record, seed_record]"
    by code_simp
  have before: "list_all (import_contract truthy show_int) [seed_record]"
    by code_simp
  have bad: "\<not> import_contract truthy show_int empty_stamp_record"
    by code_simp
  have nonnull: "empty_stamp_record \<noteq> JNull"
    by (simp add: empty_stamp_record_def)
  have readable: "date_readable show_int empty_stamp_record"
    by code_simp
  show ?thesis
    using both before bad nonnull readable
      validateImportData_contract [where numstr = show_int and records = "[seed_record, seed_record]"
        and pre = "[seed_record]" and x = empty_stamp_record and post = "[seed_record]"]
    by blast
qed

text \<open>
  The two inputs on which the function raises instead of returning a result: a \<^verbatim>\<open>null\<close>
  element, and an element that passes the checks before the date and whose date is an
  object with a member named \<^verbatim>\<open>toString\<close>, alone or inside an array.
\<close>

lemma validateImportData_raises:
  "validateImportData show_int (JArr [seed_record, JNull]) = Inl TypeError
   \<and> validateImportData show_int (JArr [unreadable_date_record]) = Inl TypeError
   \<and> validateImportData show_int (JArr [unreadable_date_in_array]) = Inl TypeError"
  by code_simp

subsection \<open>Statistics: the trailing week\<close>

lemma foldl_amounts:
  fixes a :: "'n::monoid_add"
  shows "foldl (\<lambda>sum t. sum + amount t) a xs = a + sum_list (map amount xs)"
  by (induction xs arbitrary: a) (simp_all add: add.assoc)

lemma day_bounds: "Day t * msPerDay \<le> t \<and> t < Day t * msPerDay + msPerDay"
proof -
  have "t div 86400000 * 86400000 + t mod 86400000 = t" by simp
  moreover have "0 \<le> t mod 86400000 \<and> t mod 86400000 < (86400000::int)" by simp
  ultimately show ?thesis unfolding Day_def msPerDay_def by linarith
qed

lemma setDate_back_eq:
  "setDate_back h t k =
     LocalTime h t - k * msPerDay
       - LocalTZA h ((Day (LocalTime h t) - k) * msPerDay + TimeWithinDay (LocalTime h t)) False"
proof -
  have "Day (LocalTime h t) * msPerDay + TimeWithinDay (LocalTime h t) = LocalTime h t"
    by (simp add: Day_def TimeWithinDay_def)
  then show ?thesis
    by (simp add: setDate_back_def Let_def UTC_def algebra_simps)
qed

lemma window_bounds:
  assumes "\<forall>t isUTC. \<bar>LocalTZA h t isUTC\<bar> < msPerDay"
  shows "setDate_back h (now h) 7 \<le> (Day (LocalTime h (now h)) - 3) * msPerDay"
    and "(Day (LocalTime h (now h)) - 10) * msPerDay < setDate_back h (now h) 7"
proof -
  define local where "local = LocalTime h (now h)"
  define off where "off = LocalTZA h ((Day local - 7) * msPerDay + TimeWithinDay local) False"
  have off: "- msPerDay < off \<and> off < msPerDay"
    using assms [rule_format, of "(Day local - 7) * msPerDay + TimeWithinDay local" False]
    unfolding off_def by linarith
  have eq: "setDate_back h (now h) 7 = local - 7 * msPerDay - off"
    by (simp add: setDate_back_eq local_def off_def)
  have pos: "0 < msPerDay" by (simp add: msPerDay_def)
  from day_bounds [of local] off pos
  show "setDate_back h (now h) 7 \<le> (Day (LocalTime h (now h)) - 3) * msPerDay"
    unfolding eq local_def [symmetric] by (simp add: algebra_simps; linarith)
  from day_bounds [of local] off pos
  show "(Day (LocalTime h (now h)) - 10) * msPerDay < setDate_back h (now h) 7"
    unfolding eq local_def [symmetric] by (simp add: algebra_simps; linarith)
qed

text \<open>
  C8. On a host whose local offset from UTC is below one day in size, a store holding
  exactly three records, dated today (the local calendar day), three days ago and ten
  days ago, with amounts 10, 20 and 30, has \<open>last7Days = 30\<close>, in whatever order the
  records are stored.
\<close>

theorem last7Days_three_records:
  fixes st :: "rat state"
  assumes zone: "\<forall>t isUTC. \<bar>LocalTZA h t isUTC\<bar> < msPerDay"
    and store: "mset (transactions st) = {#a, b, c#}"
    and a: "Date_parse h (date a) = Some (Day (LocalTime h (now h)) * msPerDay)" "amount a = 10"
    and b: "Date_parse h (date b) = Some ((Day (LocalTime h (now h)) - 3) * msPerDay)" "amount b = 20"
    and c: "Date_parse h (date c) = Some ((Day (LocalTime h (now h)) - 10) * msPerDay)" "amount c = 30"
  shows "last7Days (calculateStats h st) = 30"
proof -
  define P :: "rat transaction \<Rightarrow> bool" where "P = dated_within h (setDate_back h (now h) 7)"
  have pos: "0 < msPerDay" by (simp add: msPerDay_def)
  have Pa: "P a" and Pb: "P b" and Pc: "\<not> P c"
    using window_bounds [OF zone] a(1) b(1) c(1) pos
    by (simp_all add: P_def dated_within_def algebra_simps)
  have "last7Days (calculateStats h st) = sum_list (map amount (filter P (transactions st)))"
    by (simp add: calculateStats_def Let_def foldl_amounts P_def)
  also have "\<dots> = sum_mset (image_mset amount (filter_mset P (mset (transactions st))))"
    by (simp flip: sum_mset_sum_list)
  also have "\<dots> = 30"
    using Pa Pb Pc a(2) b(2) c(2) by (simp add: store)
  finally show ?thesis .
qed

theorem last7Days_three_records_witness:
  "(\<forall>t isUTC. \<bar>LocalTZA host_east t isUTC\<bar> < msPerDay)
   \<and> mset (transactions week_store) = {#paid_today, paid_3_days_ago, paid_10_days_ago#}
   \<and> Date_parse host_east (date paid_today)
       = Some (Day (LocalTime host_east (now host_east)) * msPerDay)
   \<and> Date_parse host_east (date paid_3_days_ago)
       = Some ((Day (LocalTime host_east (now host_east)) - 3) * msPerDay)
   \<and> Date_parse host_east (date paid_10_days_ago)
       = Some ((Day (LocalTime host_east (now host_east)) - 10) * msPerDay)
   \<and> last7Days (calculateStats host_east week_store) = 30"
proof -
  have zone: "\<forall>t isUTC. \<bar>LocalTZA host_east t isUTC\<bar> < msPerDay"
    by (simp add: host_east_def msPerDay_def)
  have store: "mset (transactions week_store) = {#paid_today, paid_3_days_ago, paid_10_days_ago#}"
    by (simp add: week_store_def)
  have a: "Date_parse host_east (date paid_today)
      = Some (Day (LocalTime host_east (now host_east)) * msPerDay)"
    by code_simp
  have b: "Date_parse host_east (date paid_3_days_ago)
      = Some ((Day (LocalTime host_east (now host_east)) - 3) * msPerDay)"
    by code_simp
  have c: "Date_parse host_east (date paid_10_days_ago)
      = Some ((Day (LocalTime host_east (now host_east)) - 10) * msPerDay)"
    by code_simp
  have "last7Days (calculateStats host_east week_store) = 30"
    by (rule last7Days_three_records [OF zone store a _ b _ c])
      (simp_all add: paid_today_def paid_3_days_ago_def paid_10_days_ago_def)
  with zone store a b c show ?thesis by blast
qed

subsection \<open>Statistics: the top category\<close>

lemma first_seen_snoc:
  "first_seen (xs @ [x]) = (if x \<in> set xs then first_seen xs else first_seen xs @ [x])"
  by (simp add: first_seen_def)

lemma set_first_seen: "set (first_seen xs) = set xs"
  by (simp add: first_seen_def)

lemma distinct_first_seen: "distinct (first_seen xs)"
  by (simp add: first_seen_def)

lemma category_sum_snoc:
  "category_sum (txs @ [t]) c =
     (if category t = c then category_sum txs c + amount t else category_sum txs c)"
  by (simp add: category_sum_def)

lemma category_sum_unseen: "c \<notin> category ` set txs \<Longrightarrow> category_sum txs c = 0"
proof -
  assume "c \<notin> category ` set txs"
  then have "filter (\<lambda>t. category t = c) txs = []"
    by (auto simp: filter_empty_conv)
  then show ?thesis by (simp add: category_sum_def)
qed

lemma map_of_tabulate:
  "map_of (map (\<lambda>c. (c, f c)) cs) k = (if k \<in> set cs then Some (f k) else None)"
  by (induction cs) auto

lemma update_tabulate:
  "distinct cs \<Longrightarrow>
   AList.update k v (map (\<lambda>c. (c, f c)) cs) =
     (if k \<in> set cs then map (\<lambda>c. (c, if c = k then v else f c)) cs
      else map (\<lambda>c. (c, f c)) cs @ [(k, v)])"
  by (induction cs) auto

lemma ordinary_name_not_inherited: "ordinary_name c \<Longrightarrow> c \<notin> set Object_prototype_names"
  by (auto simp: ordinary_name_def list_all_iff)

lemma ordinary_name_not_proto: "ordinary_name c \<Longrightarrow> c \<noteq> ''__proto__''"
  by (auto simp: ordinary_name_def Object_prototype_names_def)

lemma categoryTotals_closed_form:
  fixes txs :: "('n::{zero,plus}) transaction list"
  assumes "list_all (\<lambda>t. ordinary_name (category t)) txs"
  shows "foldl accumulate [] txs =
     map (\<lambda>c. (c, Num (category_sum txs c))) (first_seen (map category txs))"
  using assms
proof (induction txs rule: rev_induct)
  case Nil
  then show ?case by (simp add: first_seen_def)
next
  case (snoc t txs)
  let ?c = "category t"
  let ?cats = "first_seen (map category txs)"
  have IH: "foldl accumulate [] txs = map (\<lambda>c. (c, Num (category_sum txs c))) ?cats"
    using snoc by simp
  have ord: "ordinary_name ?c" using snoc.prems by simp
  show ?case
  proof (cases "?c \<in> category ` set txs")
    case True
    then have seen: "?c \<in> set ?cats" by (simp add: set_first_seen)
    have "accumulate (map (\<lambda>c. (c, Num (category_sum txs c))) ?cats) t =
        map (\<lambda>c. (c, if c = ?c then Num (category_sum txs ?c + amount t)
                       else Num (category_sum txs c))) ?cats"
      using seen by (simp add: accumulate_def map_of_tabulate update_tabulate distinct_first_seen)
    also have "\<dots> = map (\<lambda>c. (c, Num (category_sum (txs @ [t]) c))) ?cats"
      by (rule map_cong) (auto simp: category_sum_snoc)
    finally show ?thesis using True by (simp add: IH first_seen_snoc)
  next
    case False
    then have unseen: "?c \<notin> set ?cats" by (simp add: set_first_seen)
    have "accumulate (map (\<lambda>c. (c, Num (category_sum txs c))) ?cats) t =
        map (\<lambda>c. (c, Num (category_sum txs c))) ?cats @ [(?c, Num (0 + amount t))]"
      using unseen ordinary_name_not_inherited [OF ord] ordinary_name_not_proto [OF ord]
      by (simp add: accumulate_def map_of_tabulate update_tabulate distinct_first_seen)
    also have "\<dots> = map (\<lambda>c. (c, Num (category_sum (txs @ [t]) c))) (?cats @ [?c])"
      using unseen by (auto simp: category_sum_snoc category_sum_unseen [OF False])
    finally show ?thesis using False by (simp add: IH first_seen_snoc)
  qed
qed

lemma entries_without_index:
  assumes "list_all (\<lambda>p. \<not> is_array_index (fst p)) obj"
  shows "entries obj = obj"
proof -
  have "filter (\<lambda>p. is_array_index (fst p)) obj = []"
    using assms by (auto simp: filter_empty_conv list_all_iff)
  moreover have "filter (\<lambda>p. \<not> is_array_index (fst p)) obj = obj"
    using assms by (auto simp: filter_id_conv list_all_iff)
  ultimately show ?thesis by (simp add: entries_def)
qed

lemma top_step_keeps:
  "\<forall>c \<in> set cs. f c \<le> ta \<Longrightarrow>
   foldl top_step (tc, ta) (map (\<lambda>c. (c, Num (f c))) cs) = (tc, ta)"
  by (induction cs) auto

lemma top_step_finds:
  "find (\<lambda>c. f c = M) cs = Some c \<Longrightarrow> \<forall>c' \<in> set cs. f c' \<le> M \<Longrightarrow> ta < M \<Longrightarrow>
   foldl top_step (tc, ta) (map (\<lambda>c. (c, Num (f c))) cs) = (c, M)"
proof (induction cs arbitrary: tc ta)
  case Nil
  then show ?case by simp
next
  case (Cons x cs)
  show ?case
  proof (cases "f x = M")
    case True
    with Cons.prems have "x = c" by simp
    with True Cons.prems show ?thesis by (simp add: top_step_keeps)
  next
    case False
    with Cons.prems have less: "f x < M" by auto
    from False Cons.prems have rest: "find (\<lambda>c. f c = M) cs = Some c" by simp
    from Cons.prems have bound: "\<forall>c' \<in> set cs. f c' \<le> M" by simp
    show ?thesis
      using Cons.IH [OF rest bound less] Cons.IH [OF rest bound Cons.prems(3)]
      by simp
  qed
qed

lemma find_highest:
  assumes "find (\<lambda>c. list_all (\<lambda>c'. f c' \<le> f c) cs) cs = Some c"
  shows "find (\<lambda>c'. f c' = f c) cs = Some c" and "\<forall>c' \<in> set cs. f c' \<le> f c"
proof -
  from assms obtain i where i: "i < length cs" "cs ! i = c"
      "list_all (\<lambda>c'. f c' \<le> f c) cs"
      "\<forall>j<i. \<not> list_all (\<lambda>c'. f c' \<le> f (cs ! j)) cs"
    by (auto simp: find_Some_iff)
  show top: "\<forall>c' \<in> set cs. f c' \<le> f c"
    using i(3) by (simp add: list_all_iff)
  have "\<forall>j<i. f (cs ! j) \<noteq> f c"
  proof (intro allI impI notI)
    fix j assume "j < i" and eq: "f (cs ! j) = f c"
    then have "list_all (\<lambda>c'. f c' \<le> f (cs ! j)) cs" using top by (simp add: list_all_iff)
    with i(4) \<open>j < i\<close> show False by blast
  qed
  with i(1,2) show "find (\<lambda>c'. f c' = f c) cs = Some c"
    by (auto simp: find_Some_iff)
qed

text \<open>
  C7 (as stated). Two records, \<open>Food\<close> 50 and then a category named \<open>7\<close> with 50: the
  two categories are tied for the highest sum and \<open>Food\<close> is encountered first, yet
  \<open>topCategory\<close> is \<open>7\<close>, since \<^verbatim>\<open>Object.entries\<close> lists array-index names before the
  others.
\<close>

theorem topCategory_index_name_first:
  "first_highest (transactions index_store) = Some ''Food''
   \<and> category_sum (transactions index_store) ''Food'' = 50
   \<and> category_sum (transactions index_store) ''7'' = 50
   \<and> topCategory (calculateStats host_east index_store) = ''7''"
  by code_simp

text \<open>
  C7 (amended). When no category name is an array index or the name of a member of
  \<^verbatim>\<open>Object.prototype\<close>, and the highest amount sum is positive, \<open>topCategory\<close> is the
  first category, in the order of first encounter during accumulation, whose sum no
  other sum exceeds; with a tie for the highest sum, the tied category encountered
  first. The sums are the left-to-right sums the code accumulates, over any ordered
  number type.
\<close>

theorem topCategory_first_encountered:
  fixes st :: "('n::{zero,plus,linorder}) state"
  assumes names: "list_all (\<lambda>t. ordinary_name (category t)) (transactions st)"
    and first: "first_highest (transactions st) = Some c"
    and positive: "0 < category_sum (transactions st) c"
  shows "topCategory (calculateStats h st) = c"
proof -
  let ?txs = "transactions st"
  let ?cats = "first_seen (map category ?txs)"
  let ?tab = "map (\<lambda>c. (c, Num (category_sum ?txs c))) ?cats"
  have totals: "foldl accumulate [] ?txs = ?tab"
    by (rule categoryTotals_closed_form [OF names])
  have "list_all (\<lambda>p. \<not> is_array_index (fst p)) ?tab"
    using names by (auto simp: list_all_iff set_first_seen ordinary_name_def)
  then have order: "entries ?tab = ?tab"
    by (rule entries_without_index)
  from first have found: "find (\<lambda>c. list_all (\<lambda>c'. category_sum ?txs c' \<le> category_sum ?txs c) ?cats) ?cats = Some c"
    by (simp add: first_highest_def Let_def)
  have "foldl top_step (''-'', 0) ?tab = (c, category_sum ?txs c)"
    by (rule top_step_finds [OF find_highest(1) [OF found] find_highest(2) [OF found] positive])
  then show ?thesis
    by (simp add: calculateStats_def Let_def totals order)
qed

theorem topCategory_first_encountered_witness:
  "list_all (\<lambda>t. ordinary_name (category t)) (transactions tie_store)
   \<and> first_highest (transactions tie_store) = Some ''Food''
   \<and> category_sum (transactions tie_store) ''Books'' = category_sum (transactions tie_store) ''Food''
   \<and> 0 < category_sum (transactions tie_store) ''Food''
   \<and> topCategory (calculateStats host_east tie_store) = ''Food''"
proof -
  have names: "list_all (\<lambda>t. ordinary_name (category t)) (transactions tie_store)"
    by code_simp
  have first: "first_highest (transactions tie_store) = Some ''Food''"
    by code_simp
  have tie: "category_sum (transactions tie_store) ''Books'' = category_sum (transactions tie_store) ''Food''"
    by code_simp
  have positive: "0 < category_sum (transactions tie_store) ''Food''"
    by code_simp
  have "topCategory (calculateStats host_east tie_store) = ''Food''"
    by (rule topCategory_first_encountered [OF names first positive])
  with names first tie positive show ?thesis by blast
qed

subsection \<open>Sorted view\<close>

lemma mset_insert_by: "mset (insert_by cmp x ys) = add_mset x (mset ys)"
  by (induction ys) simp_all

lemma sort_by_Cons: "sort_by cmp (x # xs) = insert_by cmp x (sort_by cmp xs)"
  by (simp add: sort_by_def)

lemma mset_sort_by: "mset (sort_by cmp xs) = mset xs"
  by (induction xs) (simp_all add: sort_by_Cons mset_insert_by, simp add: sort_by_def)

lemma set_sort_by: "set (sort_by cmp xs) = set xs"
  using mset_sort_by [of cmp xs] by (metis set_mset_mset)

lemma sorted_insert_by:
  assumes total: "\<forall>a b. le a b \<or> le b a"
    and trans: "\<forall>a b c. le a b \<longrightarrow> le b c \<longrightarrow> le a c"
    and agree: "\<forall>y \<in> set ys. (cmp x y \<le> 0) = le x y"
    and sorted: "sorted_wrt le ys"
  shows "sorted_wrt le (insert_by cmp x ys)"
  using agree sorted
proof (induction ys)
  case Nil
  then show ?case by simp
next
  case (Cons y ys)
  show ?case
  proof (cases "cmp x y \<le> 0")
    case True
    with Cons.prems have xy: "le x y" by simp
    from Cons.prems have "\<forall>z \<in> set ys. le y z" by simp
    with xy trans have "\<forall>z \<in> set ys. le x z" by blast
    with True xy Cons.prems show ?thesis by simp
  next
    case False
    with Cons.prems have "\<not> le x y" by simp
    with total have yx: "le y x" by blast
    have "set (insert_by cmp x ys) = insert x (set ys)"
      using mset_insert_by [of cmp x ys] by (metis set_mset_add_mset_insert set_mset_mset)
    with yx Cons.prems have "\<forall>z \<in> set (insert_by cmp x ys). le y z" by simp
    moreover from Cons have "sorted_wrt le (insert_by cmp x ys)" by simp
    ultimately show ?thesis using False by simp
  qed
qed

lemma sorted_sort_by:
  assumes total: "\<forall>a b. le a b \<or> le b a"
    and trans: "\<forall>a b c. le a b \<longrightarrow> le b c \<longrightarrow> le a c"
    and agree: "\<forall>a \<in> set xs. \<forall>b \<in> set xs. (cmp a b \<le> 0) = le a b"
  shows "sorted_wrt le (sort_by cmp xs)"
  using agree
proof (induction xs)
  case Nil
  then show ?case by (simp add: sort_by_def)
next
  case (Cons x xs)
  then have "sorted_wrt le (sort_by cmp xs)" by simp
  moreover from Cons.prems have "\<forall>y \<in> set (sort_by cmp xs). (cmp x y \<le> 0) = le x y"
    by (simp add: set_sort_by)
  ultimately show ?case
    unfolding sort_by_Cons by (intro sorted_insert_by [OF total trans])
qed

lemma reversal_by_key:
  fixes k :: "'a \<Rightarrow> 'k::linorder"
  assumes up: "\<forall>a \<in> set xs. \<forall>b \<in> set xs. (cmpA a b \<le> 0) = (k a \<le> k b)"
    and down: "\<forall>a \<in> set xs. \<forall>b \<in> set xs. (cmpD a b \<le> 0) = (k b \<le> k a)"
  shows "map k (rev (sort_by cmpA xs)) = map k (sort_by cmpD xs)"
proof -
  have "sorted_wrt (\<lambda>a b. k a \<le> k b) (sort_by cmpA xs)"
    by (rule sorted_sort_by [OF _ _ up]) auto
  then have A: "sorted (map k (sort_by cmpA xs))"
    by (simp add: sorted_map)
  have "sorted_wrt (\<lambda>a b. k b \<le> k a) (sort_by cmpD xs)"
    by (rule sorted_sort_by [OF _ _ down]) auto
  then have D: "sorted (rev (map k (sort_by cmpD xs)))"
    by (simp add: sorted_wrt_rev sorted_wrt_map)
  have "sort (map k xs) = map k (sort_by cmpA xs)"
    by (rule properties_for_sort [OF _ A]) (simp add: mset_sort_by)
  moreover have "sort (map k xs) = rev (map k (sort_by cmpD xs))"
    by (rule properties_for_sort [OF _ D]) (simp add: mset_sort_by)
  ultimately have "map k (sort_by cmpA xs) = rev (map k (sort_by cmpD xs))" by simp
  then have "rev (map k (sort_by cmpA xs)) = map k (sort_by cmpD xs)" by simp
  then show ?thesis by (simp only: rev_map)
qed

lemma reversal_distinct_keys:
  fixes k :: "'a \<Rightarrow> 'k::linorder"
  assumes up: "\<forall>a \<in> set xs. \<forall>b \<in> set xs. (cmpA a b \<le> 0) = (k a \<le> k b)"
    and down: "\<forall>a \<in> set xs. \<forall>b \<in> set xs. (cmpD a b \<le> 0) = (k b \<le> k a)"
    and keys: "distinct (map k xs)"
  shows "rev (sort_by cmpA xs) = sort_by cmpD xs"
proof -
  from keys have "inj_on k (set xs)" by (simp add: distinct_map)
  then have "inj_on k (set (rev (sort_by cmpA xs)) \<union> set (sort_by cmpD xs))"
    by (simp add: set_sort_by)
  then show ?thesis
    using reversal_by_key [OF up down] by (simp only: inj_on_map_eq_map)
qed

lemma compare_by_key:
  fixes k :: "('n::linorder) transaction \<Rightarrow> 'k::linorder" and a b :: "'n transaction"
  assumes a: "sort_value h f a = wrap (k a)" and b: "sort_value h f b = wrap (k b)"
    and less: "\<forall>x y. js_less (wrap x) (wrap y) = (x < y)"
  shows "(compare h \<lparr>field = f, ascending = True\<rparr> a b \<le> 0) = (k a \<le> k b)"
    and "(compare h \<lparr>field = f, ascending = False\<rparr> a b \<le> 0) = (k b \<le> k a)"
    and "(compare h \<lparr>field = f, ascending = True\<rparr> a b = 0) = (k a = k b)"
  using less by (auto simp: compare_def Let_def a b)

lemma no_ties_nth:
  "no_ties h f xs \<Longrightarrow> i < j \<Longrightarrow> j < length xs \<Longrightarrow>
   compare h \<lparr>field = f, ascending = True\<rparr> (xs ! i) (xs ! j) \<noteq> 0"
  by (simp add: no_ties_def sorted_wrt_iff_nth_less)

lemma view_reversal_keyed:
  fixes k :: "('n::linorder) transaction \<Rightarrow> 'k::linorder" and st :: "'n state"
  assumes keyed: "\<forall>t \<in> set (transactions st). sort_value h f t = wrap (k t)"
    and less: "\<forall>x y. js_less (wrap x) (wrap y) = (x < y)"
  shows "map (sort_value h f) (rev (getSortedTransactions h (setSort f True st)))
           = map (sort_value h f) (getSortedTransactions h (setSort f False st))"
    and "no_ties h f (transactions st) \<Longrightarrow>
         rev (getSortedTransactions h (setSort f True st)) = getSortedTransactions h (setSort f False st)"
proof -
  let ?xs = "transactions st"
  let ?A = "compare h \<lparr>field = f, ascending = True\<rparr>"
  let ?D = "compare h \<lparr>field = f, ascending = False\<rparr>"
  have up: "\<forall>a \<in> set ?xs. \<forall>b \<in> set ?xs. (?A a b \<le> 0) = (k a \<le> k b)"
    using keyed compare_by_key(1) [OF _ _ less] by blast
  have down: "\<forall>a \<in> set ?xs. \<forall>b \<in> set ?xs. (?D a b \<le> 0) = (k b \<le> k a)"
    using keyed compare_by_key(2) [OF _ _ less] by blast
  have asc: "getSortedTransactions h (setSort f True st) = sort_by ?A ?xs"
    and desc: "getSortedTransactions h (setSort f False st) = sort_by ?D ?xs"
    by (simp_all add: getSortedTransactions_def setSort_def)
  have keys: "map k (rev (sort_by ?A ?xs)) = map k (sort_by ?D ?xs)"
    by (rule reversal_by_key [OF up down])
  have "map (sort_value h f) ys = map wrap (map k ys)" if "set ys = set ?xs" for ys
    using that keyed by simp
  then show "map (sort_value h f) (rev (getSortedTransactions h (setSort f True st)))
           = map (sort_value h f) (getSortedTransactions h (setSort f False st))"
    unfolding asc desc using keys by (simp add: set_sort_by del: map_map)
  assume ties: "no_ties h f ?xs"
  have "distinct (map k ?xs)"
    unfolding distinct_conv_nth
  proof (intro allI impI)
    fix i j assume i: "i < length (map k ?xs)" and j: "j < length (map k ?xs)" and "i \<noteq> j"
    then consider "i < j" | "j < i" by linarith
    then show "map k ?xs ! i \<noteq> map k ?xs ! j"
    proof cases
      case 1
      with ties j have "?A (?xs ! i) (?xs ! j) \<noteq> 0" by (simp add: no_ties_nth)
      moreover have "(?A (?xs ! i) (?xs ! j) = 0) = (k (?xs ! i) = k (?xs ! j))"
        using keyed i j by (intro compare_by_key(3) [OF _ _ less]) simp_all
      ultimately show ?thesis using i j by simp
    next
      case 2
      with ties i have "?A (?xs ! j) (?xs ! i) \<noteq> 0" by (simp add: no_ties_nth)
      moreover have "(?A (?xs ! j) (?xs ! i) = 0) = (k (?xs ! j) = k (?xs ! i))"
        using keyed i j by (intro compare_by_key(3) [OF _ _ less]) simp_all
      ultimately show ?thesis using i j by simp
    qed
  qed
  then show "rev (getSortedTransactions h (setSort f True st)) = getSortedTransactions h (setSort f False st)"
    unfolding asc desc by (rule reversal_distinct_keys [OF up down])
qed

lemma view_reversal_comparable:
  fixes st :: "('n::linorder) state"
  assumes "list_all (comparable h f) (transactions st)"
  shows "map (sort_value h f) (rev (getSortedTransactions h (setSort f True st)))
           = map (sort_value h f) (getSortedTransactions h (setSort f False st))"
    and "no_ties h f (transactions st) \<Longrightarrow>
         rev (getSortedTransactions h (setSort f True st)) = getSortedTransactions h (setSort f False st)"
proof -
  have dates: "f = Date \<Longrightarrow> \<forall>t \<in> set (transactions st). sort_value h f t = (TimeVal \<circ> Some) (time_of h t)"
    using assms by (auto simp: list_all_iff comparable_def sort_value_def time_of_def split: option.splits)
  show "map (sort_value h f) (rev (getSortedTransactions h (setSort f True st)))
           = map (sort_value h f) (getSortedTransactions h (setSort f False st))"
  proof (cases f)
    case Amount
    show ?thesis by (rule view_reversal_keyed(1) [where k = amount and wrap = NumVal]) (simp_all add: Amount sort_value_def)
  next
    case Date
    show ?thesis by (rule view_reversal_keyed(1) [OF dates [OF Date]]) simp
  next
    case Id
    show ?thesis by (rule view_reversal_keyed(1) [where k = "\<lambda>t. toLowerCase (id' t)" and wrap = TextVal]) (simp_all add: Id sort_value_def)
  next
    case Description
    show ?thesis by (rule view_reversal_keyed(1) [where k = "\<lambda>t. toLowerCase (description t)" and wrap = TextVal]) (simp_all add: Description sort_value_def)
  next
    case Category
    show ?thesis by (rule view_reversal_keyed(1) [where k = "\<lambda>t. toLowerCase (category t)" and wrap = TextVal]) (simp_all add: Category sort_value_def)
  next
    case CreatedAt
    show ?thesis by (rule view_reversal_keyed(1) [where k = "\<lambda>t. toLowerCase (createdAt t)" and wrap = TextVal]) (simp_all add: CreatedAt sort_value_def)
  next
    case UpdatedAt
    show ?thesis by (rule view_reversal_keyed(1) [where k = "\<lambda>t. toLowerCase (updatedAt t)" and wrap = TextVal]) (simp_all add: UpdatedAt sort_value_def)
  qed
  assume ties: "no_ties h f (transactions st)"
  show "rev (getSortedTransactions h (setSort f True st)) = getSortedTransactions h (setSort f False st)"
  proof (cases f)
    case Amount
    show ?thesis by (rule view_reversal_keyed(2) [where k = amount and wrap = NumVal, OF _ _ ties]) (simp_all add: Amount sort_value_def)
  next
    case Date
    show ?thesis by (rule view_reversal_keyed(2) [OF dates [OF Date] _ ties]) simp
  next
    case Id
    show ?thesis by (rule view_reversal_keyed(2) [where k = "\<lambda>t. toLowerCase (id' t)" and wrap = TextVal, OF _ _ ties]) (simp_all add: Id sort_value_def)
  next
    case Description
    show ?thesis by (rule view_reversal_keyed(2) [where k = "\<lambda>t. toLowerCase (description t)" and wrap = TextVal, OF _ _ ties]) (simp_all add: Description sort_value_def)
  next
    case Category
    show ?thesis by (rule view_reversal_keyed(2) [where k = "\<lambda>t. toLowerCase (category t)" and wrap = TextVal, OF _ _ ties]) (simp_all add: Category sort_value_def)
  next
    case CreatedAt
    show ?thesis by (rule view_reversal_keyed(2) [where k = "\<lambda>t. toLowerCase (createdAt t)" and wrap = TextVal, OF _ _ ties]) (simp_all add: CreatedAt sort_value_def)
  next
    case UpdatedAt
    show ?thesis by (rule view_reversal_keyed(2) [where k = "\<lambda>t. toLowerCase (updatedAt t)" and wrap = TextVal, OF _ _ ties]) (simp_all add: UpdatedAt sort_value_def)
  qed
qed

lemma js_less_nan: "\<not> js_less (TimeVal None) v" "\<not> js_less v (TimeVal None)"
proof -
  show "\<not> js_less (TimeVal None) v"
    by (cases v) simp_all
  show "\<not> js_less v (TimeVal None)"
  proof (cases v)
    case (TimeVal x)
    then show ?thesis by (cases x) simp_all
  qed simp_all
qed

lemma no_ties_comparable:
  fixes xs :: "('n::linorder) transaction list"
  assumes ties: "no_ties h f xs" and two: "2 \<le> length xs"
  shows "list_all (comparable h f) xs"
  unfolding list_all_length
proof (intro allI impI)
  fix i assume i: "i < length xs"
  let ?A = "compare h \<lparr>field = f, ascending = True\<rparr>"
  show "comparable h f (xs ! i)"
  proof (rule ccontr)
    assume "\<not> comparable h f (xs ! i)"
    then have nan: "sort_value h f (xs ! i) = TimeVal None"
      by (auto simp: comparable_def split: sort_value.splits option.splits)
    have zero: "?A (xs ! i) t = 0 \<and> ?A t (xs ! i) = 0" for t
      by (simp add: compare_def Let_def nan js_less_nan)
    show False
    proof (cases "i = 0")
      case True
      with two have "?A (xs ! i) (xs ! 1) \<noteq> 0" using no_ties_nth [OF ties, of 0 1] by simp
      with zero show False by blast
    next
      case False
      with i have "?A (xs ! 0) (xs ! i) \<noteq> 0" using no_ties_nth [OF ties, of 0 i] by simp
      with zero show False by blast
    qed
  qed
qed

lemma sort_by_short: "length xs < 2 \<Longrightarrow> sort_by cmp xs = xs"
  by (cases xs; cases "tl xs") (auto simp: sort_by_def)

text \<open>
  C9 (as stated). Four records whose dates are pairwise distinct, one of them invalid
  on a strict host: under the date sort every comparison with the invalid date is
  false, the comparator returns zero for it against every record, and the ascending
  view reversed is not the descending view. The records of \<^verbatim>\<open>2025-01-02\<close> and
  \<^verbatim>\<open>2025-01-03\<close>, which are not tied, come in one order in the first list and in the
  other order in the second.
\<close>

theorem sorted_view_invalid_date:
  "distinct (map date (transactions invalid_date_store))
   \<and> list_all (\<lambda>t. test_anchored patterns_date (date t)) (transactions invalid_date_store)
   \<and> compare host_utc \<lparr>field = Date, ascending = True\<rparr> (dated ''2025-01-02'') (dated ''2025-01-03'') \<noteq> 0
   \<and> map date (rev (getSortedTransactions host_utc (setSort Date True invalid_date_store)))
       = [''2025-01-02'', ''2025-02-30'', ''2025-01-03'', ''2025-01-01'']
   \<and> map date (getSortedTransactions host_utc (setSort Date False invalid_date_store))
       = [''2025-01-03'', ''2025-01-01'', ''2025-02-30'', ''2025-01-02'']
   \<and> rev (getSortedTransactions host_utc (setSort Date True invalid_date_store))
       \<noteq> getSortedTransactions host_utc (setSort Date False invalid_date_store)"
  by code_simp

text \<open>
  C9 (amended). For every store and every sort field: when no two records are tied
  under the comparison of that field (amounts as numbers, dates as time values, the
  other fields as lower-case text; a record with an invalid date is tied with every
  record), the ascending view reversed is the descending view. When records may be
  tied, and no record has an invalid date under the date sort, the two lists carry the
  same sort value at every position, and each is a permutation of the store: they
  differ at most in the order of tied records.
\<close>

theorem sorted_view_reversal:
  fixes st :: "('n::linorder) state"
  shows "(no_ties h f (transactions st)
          \<longrightarrow> rev (getSortedTransactions h (setSort f True st))
               = getSortedTransactions h (setSort f False st))
       \<and> (list_all (comparable h f) (transactions st)
          \<longrightarrow> map (sort_value h f) (rev (getSortedTransactions h (setSort f True st)))
               = map (sort_value h f) (getSortedTransactions h (setSort f False st))
            \<and> mset (getSortedTransactions h (setSort f True st)) = mset (transactions st)
            \<and> mset (getSortedTransactions h (setSort f False st)) = mset (transactions st))"
proof (intro conjI impI)
  assume ties: "no_ties h f (transactions st)"
  show "rev (getSortedTransactions h (setSort f True st)) = getSortedTransactions h (setSort f False st)"
  proof (cases "2 \<le> length (transactions st)")
    case True
    from no_ties_comparable [OF ties True] ties show ?thesis
      by (rule view_reversal_comparable(2))
  next
    case False
    then have short: "length (transactions st) < 2" by simp
    then have "rev (transactions st) = transactions st"
      by (cases "transactions st"; cases "tl (transactions st)") auto
    then show ?thesis
      by (simp add: getSortedTransactions_def setSort_def sort_by_short [OF short])
  qed
next
  assume "list_all (comparable h f) (transactions st)"
  then show "map (sort_value h f) (rev (getSortedTransactions h (setSort f True st)))
               = map (sort_value h f) (getSortedTransactions h (setSort f False st))"
    by (rule view_reversal_comparable(1))
next
  show "mset (getSortedTransactions h (setSort f True st)) = mset (transactions st)"
    by (simp add: getSortedTransactions_def setSort_def mset_sort_by)
next
  show "mset (getSortedTransactions h (setSort f False st)) = mset (transactions st)"
    by (simp add: getSortedTransactions_def setSort_def mset_sort_by)
qed

theorem sorted_view_reversal_witness:
  "no_ties host_east Amount (transactions tie_store)
   \<and> rev (getSortedTransactions host_east (setSort Amount True tie_store))
       = getSortedTransactions host_east (setSort Amount False tie_store)
   \<and> \<not> no_ties host_east Category (transactions tie_store)
   \<and> list_all (comparable host_east Category) (transactions tie_store)
   \<and> map (sort_value host_east Category) (rev (getSortedTransactions host_east (setSort Category True tie_store)))
       = map (sort_value host_east Category) (getSortedTransactions host_east (setSort Category False tie_store))
   \<and> mset (getSortedTransactions host_east (setSort Category True tie_store)) = mset (transactions tie_store)
   \<and> mset (getSortedTransactions host_east (setSort Category False tie_store)) = mset (transactions tie_store)"
proof -
  have distinct_amounts: "no_ties host_east Amount (transactions tie_store)"
    by code_simp
  have tied_categories: "\<not> no_ties host_east Category (transactions tie_store)"
    by code_simp
  have cmp: "list_all (comparable host_east Category) (transactions tie_store)"
    by code_simp
  show ?thesis
    using distinct_amounts tied_categories cmp
      sorted_view_reversal [of host_east Amount tie_store]
      sorted_view_reversal [of host_east Category tie_store]
    by blast
qed

text \<open>With a tie the two lists do differ: \<open>tie_store\<close> sorted by category keeps the two
  \<open>Books\<close> records in their stored order in both directions.\<close>

lemma tied_example:
  "\<not> no_ties host_east Category (transactions tie_store)
   \<and> map amount (rev (getSortedTransactions host_east (setSort Category True tie_store))) = [50, 30, 20]
   \<and> map amount (getSortedTransactions host_east (setSort Category False tie_store)) = [50, 20, 30]"
  by code_simp

subsection \<open>Date validation: what holds on every host, and what depends on it\<close>

text \<open>A date whose day lies after the local day of the clock is rejected as a future
  date, on every host whose offset from UTC is below one day in size.\<close>

lemma validateDate_rejects_later_days:
  assumes zone: "\<forall>t isUTC. \<bar>LocalTZA h t isUTC\<bar> < msPerDay"
    and shape: "\<not> is_blank v" "test_anchored patterns_date v"
    and parsed: "Date_parse h v = Some (d * msPerDay)"
    and later: "Day (LocalTime h (now h)) < d"
  shows "validateDate h v = \<lparr>valid = False, message = ''Date cannot be in the future''\<rparr>"
proof -
  define D where "D = Day (LocalTime h (now h))"
  define off where "off = LocalTZA h (D * msPerDay) False"
  have off: "- msPerDay < off"
    using zone [rule_format, of "D * msPerDay" False] unfolding off_def by linarith
  have pos: "0 < msPerDay" by (simp add: msPerDay_def)
  from later have "D + 1 \<le> d" by (simp add: D_def)
  then have "(D + 1) * msPerDay \<le> d * msPerDay"
    using pos by (intro mult_right_mono) simp_all
  then have "D * msPerDay + msPerDay \<le> d * msPerDay" by (simp add: algebra_simps)
  with off have "setHours0 h (now h) < d * msPerDay"
    by (simp add: setHours0_def UTC_def D_def [symmetric] off_def [symmetric])
  then show ?thesis
    using shape parsed by (simp add: validateDate_def Let_def invalid_def)
qed

text \<open>On UTC, today's date is valid and tomorrow's is not. A day the month does not
  have is rejected by a strict host and accepted by a lenient one, which reads
  \<^verbatim>\<open>2025-02-30\<close> as the second of March.\<close>

lemma validateDate_on_utc:
  "validateDate host_utc ''2025-06-15'' = \<lparr>valid = True, message = []\<rparr>
   \<and> validateDate host_utc ''2025-06-16'' = \<lparr>valid = False, message = ''Date cannot be in the future''\<rparr>"
  by code_simp

lemma validateDate_day_overflow:
  "validateDate host_utc ''2025-02-30'' = \<lparr>valid = False, message = ''Invalid date''\<rparr>
   \<and> validateDate host_lenient ''2025-02-30'' = \<lparr>valid = True, message = []\<rparr>"
  by code_simp

end
